theory Spec2Isabelle
  imports Complex_Main
begin

section \<open>The linear contact model of src/dem/contact/Linear.py\<close>

text \<open>
  The development embeds the class \<open>LinearModel\<close> (the property table and the
  rebuild entry points), the Taichi dataclass \<open>LinearSurfaceProperty\<close> (the force
  assemblers) and the kernel \<open>kernel_rebulid_history_contact_list\<close>.

  Numbers: the source computes with Taichi and Python floats. The model computes with
  real numbers, so every theorem is about the arithmetic the code prescribes and not
  about its rounding. Integers (material ids, slots, counts) are Python's unbounded
  \<open>int\<close>.

  Stores: a Taichi field is a total map from its index to a record; a write is a
  function update. The source never checks an index against the shape of a field, and
  neither does the model.
\<close>

subsection \<open>Errors\<close>

datatype error =
    RuntimeError string   \<comment> \<open>\<open>raise RuntimeError(...)\<close>\<close>
  | ZeroDivision          \<comment> \<open>a division whose divisor is zero\<close>
  | OutOfBounds           \<comment> \<open>a read outside an ndarray\<close>
  | MissingEntry string   \<comment> \<open>available to an instance of \<open>DictIO.GetEssential\<close>\<close>

definition bind_err :: "error + 'a \<Rightarrow> ('a \<Rightarrow> error + 'b) \<Rightarrow> error + 'b" where
  "bind_err r f = (case r of Inl e \<Rightarrow> Inl e | Inr a \<Rightarrow> f a)"

subsection \<open>Three-component vectors\<close>

text \<open>\<open>vec3f\<close> of src.utils.TypeDefination: Taichi's vector of three floats.\<close>

datatype vec3f = Vec3f (cx: real) (cy: real) (cz: real)

instantiation vec3f :: "{zero, plus, minus, uminus}"
begin

definition zero_vec3f :: vec3f where
  "zero_vec3f = Vec3f 0 0 0"

definition plus_vec3f :: "vec3f \<Rightarrow> vec3f \<Rightarrow> vec3f" where
  "plus_vec3f a b = Vec3f (cx a + cx b) (cy a + cy b) (cz a + cz b)"

definition minus_vec3f :: "vec3f \<Rightarrow> vec3f \<Rightarrow> vec3f" where
  "minus_vec3f a b = Vec3f (cx a - cx b) (cy a - cy b) (cz a - cz b)"

definition uminus_vec3f :: "vec3f \<Rightarrow> vec3f" where
  "uminus_vec3f a = Vec3f (- cx a) (- cy a) (- cz a)"

instance ..

end

text \<open>\<open>ZEROVEC3f\<close> of src.utils.constants.\<close>

definition ZEROVEC3f :: vec3f where
  "ZEROVEC3f = 0"

text \<open>Scalar times vector, written \<open>a * v\<close> or \<open>v * a\<close> in the source.\<close>

definition smul :: "real \<Rightarrow> vec3f \<Rightarrow> vec3f" where
  "smul a v = Vec3f (a * cx v) (a * cy v) (a * cz v)"

text \<open>\<open>a.dot(b)\<close>, \<open>a.cross(b)\<close> and \<open>a.norm()\<close> of Taichi vectors.\<close>

definition dot :: "vec3f \<Rightarrow> vec3f \<Rightarrow> real" where
  "dot a b = cx a * cx b + cy a * cy b + cz a * cz b"

definition cross :: "vec3f \<Rightarrow> vec3f \<Rightarrow> vec3f" where
  "cross a b = Vec3f (cy a * cz b - cz a * cy b)
                     (cz a * cx b - cx a * cz b)
                     (cx a * cy b - cy a * cx b)"

definition norm3 :: "vec3f \<Rightarrow> real" where
  "norm3 a = sqrt (dot a a)"

text \<open>
  Vector divided by scalar, \<open>v / a\<close>. Taichi does not trap a float division by zero: the
  components become inf or nan. The model has no such values; it reports the zero
  divisor as \<open>ZeroDivision\<close>, so that a result \<open>Inr\<close> has divided by nonzero scalars only.
\<close>

definition vdiv :: "vec3f \<Rightarrow> real \<Rightarrow> error + vec3f" where
  "vdiv v a = (if a = 0 then Inl ZeroDivision
              else Inr (Vec3f (cx v / a) (cy v / a) (cz v / a)))"

text \<open>Taichi's \<open>v.normalized()\<close> with its default \<open>eps = 0\<close>: \<open>v / v.norm()\<close>.\<close>

definition normalized :: "vec3f \<Rightarrow> error + vec3f" where
  "normalized v = vdiv v (norm3 v)"

text \<open>
  Modelled from the spec: \<open>Normalize\<close> of src.utils.VectorFunction is not among the
  sources. The spec has the old overlap rotated "by normalizing its tangent-plane
  projection" and a "zero-norm overlap vector during rotation-projection" handled "by
  treating as zero contribution (no force) rather than propagating a division fault":
  the unit vector of a nonzero vector, the zero vector for a zero-norm one.
\<close>

definition Normalize :: "vec3f \<Rightarrow> vec3f" where
  "Normalize v = (if norm3 v = 0 then ZEROVEC3f else smul (1 / norm3 v) v)"

text \<open>
  Modelled from the spec: \<open>EffectiveValue\<close> of src.utils.ScalarFunction is not among
  the sources. The spec gives the "harmonic-style effective-value combination" as the
  pattern \<open>2 k1 k2 / (k1 + k2)\<close>, with \<open>2 * 100 * 300 / 400 = 150\<close>.
\<close>

definition EffectiveValue :: "real \<Rightarrow> real \<Rightarrow> real" where
  "EffectiveValue x y = 2 * x * y / (x + y)"

subsection \<open>The property table\<close>

record LinearSurfaceProperty =
  kn :: real
  ks :: real
  mu :: real
  ndratio :: real
  sdratio :: real

text \<open>\<open>LinearSurfaceProperty.add_surface_property\<close> (lines 167-172).\<close>

definition LinearSurfaceProperty_add_surface_property ::
  "LinearSurfaceProperty \<Rightarrow> real \<Rightarrow> real \<Rightarrow> real \<Rightarrow> real \<Rightarrow> real \<Rightarrow> LinearSurfaceProperty" where
  "LinearSurfaceProperty_add_surface_property self kn' ks' mu' ndratio' sdratio' =
     self\<lparr>kn := kn', ks := ks', mu := mu', ndratio := ndratio', sdratio := sdratio'\<rparr>"

text \<open>
  \<open>LinearModel.add_surface_property\<close> (lines 36-51). Two collaborators are not among
  the sources and are parameters of the model: \<open>get_componousID\<close> of ContactModelBase
  (the composite index of a pair of materials) and \<open>DictIO.GetEssential\<close> (the entry of a
  property set under a name, or an error). The result is the table after the call and
  the returned \<open>componousID\<close>.
\<close>

definition add_surface_property ::
  "(int \<Rightarrow> int \<Rightarrow> int \<Rightarrow> int) \<Rightarrow> ('p \<Rightarrow> string \<Rightarrow> error + real) \<Rightarrow>
   (int \<Rightarrow> LinearSurfaceProperty) \<Rightarrow> int \<Rightarrow> int \<Rightarrow> int \<Rightarrow> 'p \<Rightarrow>
   error + ((int \<Rightarrow> LinearSurfaceProperty) \<times> int)" where
  "add_surface_property get_componousID GetEssential surfaceProps max_material_num
       materialID1 materialID2 property =
     bind_err (GetEssential property ''NormalStiffness'') (\<lambda>kn.
     bind_err (GetEssential property ''TangentialStiffness'') (\<lambda>ks.
     bind_err (GetEssential property ''Friction'') (\<lambda>mu.
     bind_err (GetEssential property ''NormalViscousDamping'') (\<lambda>ndratio.
     bind_err (GetEssential property ''TangentialViscousDamping'') (\<lambda>sdratio.
       if materialID1 = materialID2 then
         let componousID = get_componousID max_material_num materialID1 materialID2;
             surfaceProps = surfaceProps(componousID :=
               LinearSurfaceProperty_add_surface_property (surfaceProps componousID)
                 kn ks mu ndratio sdratio)
         in Inr (surfaceProps, componousID)
       else
         let componousID = get_componousID max_material_num materialID1 materialID2;
             surfaceProps = surfaceProps(componousID :=
               LinearSurfaceProperty_add_surface_property (surfaceProps componousID)
                 kn ks mu ndratio sdratio);
             componousID = get_componousID max_material_num materialID2 materialID1;
             surfaceProps = surfaceProps(componousID :=
               LinearSurfaceProperty_add_surface_property (surfaceProps componousID)
                 kn ks mu ndratio sdratio)
         in Inr (surfaceProps, componousID))))))"

text \<open>\<open>LinearModel.inherit_surface_property\<close> (lines 54-81); \<open>ti.min\<close> is \<open>min\<close>.\<close>

definition inherit_surface_property ::
  "(int \<Rightarrow> int \<Rightarrow> int \<Rightarrow> int) \<Rightarrow> ('p \<Rightarrow> string \<Rightarrow> error + real) \<Rightarrow>
   (int \<Rightarrow> LinearSurfaceProperty) \<Rightarrow> int \<Rightarrow> int \<Rightarrow> int \<Rightarrow> 'p \<Rightarrow> 'p \<Rightarrow>
   error + ((int \<Rightarrow> LinearSurfaceProperty) \<times> int)" where
  "inherit_surface_property get_componousID GetEssential surfaceProps max_material_num
       materialID1 materialID2 property1 property2 =
     bind_err (GetEssential property1 ''NormalStiffness'') (\<lambda>kn1.
     bind_err (GetEssential property1 ''TangentialStiffness'') (\<lambda>ks1.
     bind_err (GetEssential property1 ''Friction'') (\<lambda>mu1.
     bind_err (GetEssential property1 ''NormalViscousDamping'') (\<lambda>dnratio1.
     bind_err (GetEssential property1 ''TangentialViscousDamping'') (\<lambda>dsratio1.
     bind_err (GetEssential property2 ''NormalStiffness'') (\<lambda>kn2.
     bind_err (GetEssential property2 ''TangentialStiffness'') (\<lambda>ks2.
     bind_err (GetEssential property2 ''Friction'') (\<lambda>mu2.
     bind_err (GetEssential property2 ''NormalViscousDamping'') (\<lambda>dnratio2.
     bind_err (GetEssential property2 ''TangentialViscousDamping'') (\<lambda>dsratio2.
       let kn = EffectiveValue kn1 kn2;
           ks = EffectiveValue ks1 ks2;
           mu = min mu1 mu2;
           ndratio = min dnratio1 dnratio2;
           sdratio = min dsratio1 dsratio2
       in
       if materialID1 = materialID2 then
         let componousID = get_componousID max_material_num materialID1 materialID2;
             surfaceProps = surfaceProps(componousID :=
               LinearSurfaceProperty_add_surface_property (surfaceProps componousID)
                 kn ks mu ndratio sdratio)
         in Inr (surfaceProps, componousID)
       else
         let componousID = get_componousID max_material_num materialID1 materialID2;
             surfaceProps = surfaceProps(componousID :=
               LinearSurfaceProperty_add_surface_property (surfaceProps componousID)
                 kn ks mu ndratio sdratio);
             componousID = get_componousID max_material_num materialID2 materialID1;
             surfaceProps = surfaceProps(componousID :=
               LinearSurfaceProperty_add_surface_property (surfaceProps componousID)
                 kn ks mu ndratio sdratio)
         in Inr (surfaceProps, componousID)))))))))))"

text \<open>
  \<open>LinearModel.update_property\<close> (lines 83-98). The flag is first turned into the
  number 1 or 0, which then multiplies the old value.
\<close>

definition update_property ::
  "(int \<Rightarrow> LinearSurfaceProperty) \<Rightarrow> int \<Rightarrow> string \<Rightarrow> real \<Rightarrow> bool \<Rightarrow>
   (int \<Rightarrow> LinearSurfaceProperty)" where
  "update_property surfaceProps componousID property_name val override =
     (let override = (if override then 1 else 0 :: real) in
      if property_name = ''NormalStiffness'' then
        surfaceProps(componousID := (surfaceProps componousID)
          \<lparr>kn := override * kn (surfaceProps componousID) + val\<rparr>)
      else if property_name = ''TangentialStiffness'' then
        surfaceProps(componousID := (surfaceProps componousID)
          \<lparr>ks := override * ks (surfaceProps componousID) + val\<rparr>)
      else if property_name = ''Friction'' then
        surfaceProps(componousID := (surfaceProps componousID)
          \<lparr>mu := override * mu (surfaceProps componousID) + val\<rparr>)
      else if property_name = ''NormalViscousDamping'' then
        surfaceProps(componousID := (surfaceProps componousID)
          \<lparr>ndratio := override * ndratio (surfaceProps componousID) + val\<rparr>)
      else if property_name = ''TangentialViscousDamping'' then
        surfaceProps(componousID := (surfaceProps componousID)
          \<lparr>sdratio := override * sdratio (surfaceProps componousID) + val\<rparr>)
      else surfaceProps)"

subsection \<open>Particles, walls and contact records\<close>

text \<open>
  The fields of a particle that the assemblers read (\<open>x\<close>, \<open>v\<close>, \<open>w\<close>, \<open>m\<close>, \<open>rad\<close>),
  and its two accumulators.
\<close>

record Particle =
  Particle_x :: vec3f
  Particle_v :: vec3f
  Particle_w :: vec3f
  Particle_m :: real
  Particle_rad :: real
  contact_force :: vec3f
  contact_torque :: vec3f

text \<open>
  Modelled from the spec: \<open>_update_contact_interaction\<close> of the particle class is not
  among the sources. The spec has the resultant force and moment "added -- not
  overwritten -- to each endpoint's total-contact-force and total-contact-moment
  accumulators". The call with a force alone adds the force.
\<close>

definition update_contact_interaction :: "Particle \<Rightarrow> vec3f \<Rightarrow> vec3f \<Rightarrow> Particle" where
  "update_contact_interaction p force moment =
     p\<lparr>contact_force := contact_force p + force, contact_torque := contact_torque p + moment\<rparr>"

definition update_contact_interaction_force :: "Particle \<Rightarrow> vec3f \<Rightarrow> Particle" where
  "update_contact_interaction_force p force = p\<lparr>contact_force := contact_force p + force\<rparr>"

text \<open>
  A wall, as far as the assemblers use it: what \<open>_get_velocity()\<close> returns and the
  method \<open>processCircleShape(pos, distance, -gapn)\<close>. The wall classes are not among the
  sources, so both are fields of the model's wall.
\<close>

record Wall =
  get_velocity :: vec3f
  processCircleShape :: "vec3f \<Rightarrow> real \<Rightarrow> real \<Rightarrow> real"

text \<open>
  Modelled from the spec: the contact record and its \<open>_set_contact\<close> are declared in
  src.dem.contact.ContactKernel, which is not among the sources. The spec's
  ContactRecord is \<open>{partnerId, normalForce, tangentialForce, oldTangentialOverlap}\<close>;
  the source calls the last field \<open>oldTangOverlap\<close> and the partner \<open>DstID\<close>.
  \<open>_set_contact\<close> stores its arguments: the two forces and the overlap, or the overlap
  alone.
\<close>

record ContactRecord =
  DstID :: int
  normalForce :: vec3f
  tangentialForce :: vec3f
  oldTangOverlap :: vec3f

definition set_contact :: "ContactRecord \<Rightarrow> vec3f \<Rightarrow> vec3f \<Rightarrow> vec3f \<Rightarrow> ContactRecord" where
  "set_contact c normal_force tangential_force tangOverTemp =
     c\<lparr>normalForce := normal_force, tangentialForce := tangential_force,
       oldTangOverlap := tangOverTemp\<rparr>"

definition set_contact_overlap :: "ContactRecord \<Rightarrow> vec3f \<Rightarrow> ContactRecord" where
  "set_contact_overlap c tangOverTemp = c\<lparr>oldTangOverlap := tangOverTemp\<rparr>"

subsection \<open>The tangential law\<close>

text \<open>
  Lines 217-229, repeated word for word at 257-269 and 301-313. The locals are
  definitions of their own, named as in the source; each assembler passes its own
  \<open>m_eff\<close>, \<open>vs\<close> and scalar normal force \<open>fn = normal_contact_force + normal_damping_force\<close>.
\<close>

definition tangOverlapRot :: "vec3f \<Rightarrow> vec3f \<Rightarrow> vec3f" where
  "tangOverlapRot tangOverlapOld norm' = tangOverlapOld - smul (dot tangOverlapOld norm') norm'"

definition tangOverTemp_trial :: "vec3f \<Rightarrow> real \<Rightarrow> vec3f \<Rightarrow> vec3f \<Rightarrow> vec3f" where
  "tangOverTemp_trial vs dt tangOverlapOld norm' =
     smul dt vs + smul (norm3 tangOverlapOld) (Normalize (tangOverlapRot tangOverlapOld norm'))"

definition trial_ft :: "LinearSurfaceProperty \<Rightarrow> vec3f \<Rightarrow> real \<Rightarrow> vec3f \<Rightarrow> vec3f \<Rightarrow> vec3f" where
  "trial_ft self vs dt tangOverlapOld norm' =
     smul (- ks self) (tangOverTemp_trial vs dt tangOverlapOld norm')"

definition tang_damping_force :: "LinearSurfaceProperty \<Rightarrow> real \<Rightarrow> vec3f \<Rightarrow> vec3f" where
  "tang_damping_force self m_eff vs = smul (- 2 * sdratio self * sqrt (m_eff * ks self)) vs"

definition fric :: "LinearSurfaceProperty \<Rightarrow> real \<Rightarrow> real" where
  "fric self fn = mu self * \<bar>fn\<bar>"

text \<open>The result is the pair \<open>(tangential_force, tangOverTemp)\<close> after the branch.\<close>

definition friction_cap ::
  "LinearSurfaceProperty \<Rightarrow> real \<Rightarrow> real \<Rightarrow> vec3f \<Rightarrow> real \<Rightarrow> vec3f \<Rightarrow> vec3f \<Rightarrow>
   error + (vec3f \<times> vec3f)" where
  "friction_cap self m_eff fn vs dt tangOverlapOld norm' =
     (if norm3 (trial_ft self vs dt tangOverlapOld norm') > fric self fn then
        bind_err (normalized (trial_ft self vs dt tangOverlapOld norm')) (\<lambda>unit_trial.
          let tangential_force = smul (fric self fn) unit_trial in
          bind_err (vdiv (- tangential_force) (ks self)) (\<lambda>tangOverTemp.
            Inr (tangential_force, tangOverTemp)))
      else
        Inr (trial_ft self vs dt tangOverlapOld norm' + tang_damping_force self m_eff vs,
             tangOverTemp_trial vs dt tangOverlapOld norm'))"

subsection \<open>The force assemblers\<close>

text \<open>
  An assembler returns the particle store(s) and the contact store after its writes,
  and the calls of \<open>_update_contact_interaction\<close> it made, in order: the endpoint whose
  record received the call, the force and the moment (the zero vector where the call
  passes a force alone).
\<close>

datatype endpoint = End1 | End2

type_synonym interaction = "endpoint \<times> vec3f \<times> vec3f"

text \<open>\<open>_particle_particle_force_assemble\<close> (lines 197-236).\<close>

definition particle_particle_force_assemble ::
  "LinearSurfaceProperty \<Rightarrow> nat \<Rightarrow> nat \<Rightarrow> nat \<Rightarrow> real \<Rightarrow> vec3f \<Rightarrow> vec3f \<Rightarrow> real \<Rightarrow>
   (nat \<Rightarrow> Particle) \<Rightarrow> (nat \<Rightarrow> ContactRecord) \<Rightarrow>
   error + ((nat \<Rightarrow> Particle) \<times> (nat \<Rightarrow> ContactRecord) \<times> interaction list)" where
  "particle_particle_force_assemble self nc end1 end2 gapn norm' cpos dt particle cplist =
     (let pos1 = Particle_x (particle end1); pos2 = Particle_x (particle end2);
          rad1 = Particle_rad (particle end1); rad2 = Particle_rad (particle end2);
          mass1 = Particle_m (particle end1); mass2 = Particle_m (particle end2);
          vel1 = Particle_v (particle end1); vel2 = Particle_v (particle end2);
          w1 = Particle_w (particle end1); w2 = Particle_w (particle end2);
          m_eff = EffectiveValue mass1 mass2;
          v_rel = vel1 + cross w1 (cpos - pos1) - (vel2 + cross w2 (cpos - pos2));
          vn = dot v_rel norm';
          vs = v_rel - smul (dot v_rel norm') norm';
          normal_contact_force = - kn self * gapn;
          normal_damping_force = - 2 * ndratio self * sqrt (m_eff * kn self) * vn;
          normal_force = smul (normal_contact_force + normal_damping_force) norm';
          tangOverlapOld = oldTangOverlap (cplist nc)
      in bind_err
           (friction_cap self m_eff (normal_contact_force + normal_damping_force) vs dt
              tangOverlapOld norm')
           (\<lambda>(tangential_force, tangOverTemp).
              let Ftotal = normal_force + tangential_force;
                  moment = cross tangential_force norm';
                  cplist = cplist(nc :=
                    set_contact (cplist nc) normal_force tangential_force tangOverTemp);
                  particle = particle(end1 :=
                    update_contact_interaction (particle end1) Ftotal
                      (smul (rad1 + 0.5 * gapn) moment));
                  particle = particle(end2 :=
                    update_contact_interaction (particle end2) (- Ftotal)
                      (smul (rad2 + 0.5 * gapn) moment))
              in Inr (particle, cplist,
                      [(End1, Ftotal, smul (rad1 + 0.5 * gapn) moment),
                       (End2, - Ftotal, smul (rad2 + 0.5 * gapn) moment)])))"

text \<open>
  \<open>_coupled_particle_force_assemble\<close> (lines 239-276): the endpoints live in two
  particle stores.
\<close>

definition coupled_particle_force_assemble ::
  "LinearSurfaceProperty \<Rightarrow> nat \<Rightarrow> nat \<Rightarrow> nat \<Rightarrow> real \<Rightarrow> vec3f \<Rightarrow> vec3f \<Rightarrow> real \<Rightarrow>
   (nat \<Rightarrow> Particle) \<Rightarrow> (nat \<Rightarrow> Particle) \<Rightarrow> (nat \<Rightarrow> ContactRecord) \<Rightarrow>
   error + ((nat \<Rightarrow> Particle) \<times> (nat \<Rightarrow> Particle) \<times> (nat \<Rightarrow> ContactRecord) \<times>
            interaction list)" where
  "coupled_particle_force_assemble self nc end1 end2 gapn norm' cpos dt particle1 particle2
       cplist =
     (let pos2 = Particle_x (particle2 end2); w2 = Particle_w (particle2 end2);
          mass1 = Particle_m (particle1 end1); mass2 = Particle_m (particle2 end2);
          vel1 = Particle_v (particle1 end1); vel2 = Particle_v (particle2 end2);
          m_eff = EffectiveValue mass1 mass2;
          v_rel = vel1 - (vel2 + cross w2 (cpos - pos2));
          vn = dot v_rel norm';
          vs = v_rel - smul (dot v_rel norm') norm';
          normal_contact_force = - kn self * gapn;
          normal_damping_force = - 2 * ndratio self * sqrt (m_eff * kn self) * vn;
          normal_force = smul (normal_contact_force + normal_damping_force) norm';
          tangOverlapOld = oldTangOverlap (cplist nc)
      in bind_err
           (friction_cap self m_eff (normal_contact_force + normal_damping_force) vs dt
              tangOverlapOld norm')
           (\<lambda>(tangential_force, tangOverTemp).
              let Ftotal = normal_force + tangential_force;
                  resultant_momentum = cross Ftotal (cpos - pos2);
                  cplist = cplist(nc := set_contact_overlap (cplist nc) tangOverTemp);
                  particle1 = particle1(end1 :=
                    update_contact_interaction_force (particle1 end1) Ftotal);
                  particle2 = particle2(end2 :=
                    update_contact_interaction (particle2 end2) (- Ftotal) resultant_momentum)
              in Inr (particle1, particle2, cplist,
                      [(End1, Ftotal, ZEROVEC3f), (End2, - Ftotal, resultant_momentum)])))"

text \<open>
  \<open>_particle_wall_force_assemble\<close> (lines 283-320). The wall store is read and never
  written.
\<close>

definition particle_wall_force_assemble ::
  "LinearSurfaceProperty \<Rightarrow> nat \<Rightarrow> nat \<Rightarrow> nat \<Rightarrow> real \<Rightarrow> real \<Rightarrow> vec3f \<Rightarrow> vec3f \<Rightarrow> real \<Rightarrow>
   (nat \<Rightarrow> Particle) \<Rightarrow> (nat \<Rightarrow> Wall) \<Rightarrow> (nat \<Rightarrow> ContactRecord) \<Rightarrow>
   error + ((nat \<Rightarrow> Particle) \<times> (nat \<Rightarrow> ContactRecord) \<times> interaction list)" where
  "particle_wall_force_assemble self nc end1 end2 distance gapn norm' cpos dt particle wall
       cplist =
     (let pos1 = Particle_x (particle end1);
          vel1 = Particle_v (particle end1); vel2 = get_velocity (wall end2);
          w1 = Particle_w (particle end1);
          m_eff = Particle_m (particle end1);
          v_rel = vel1 + cross w1 (cpos - pos1) - vel2;
          vn = dot v_rel norm';
          vs = v_rel - smul (dot v_rel norm') norm';
          normal_contact_force = - kn self * gapn;
          normal_damping_force = - 2 * ndratio self * sqrt (m_eff * kn self) * vn;
          normal_force = smul (normal_contact_force + normal_damping_force) norm';
          tangOverlapOld = oldTangOverlap (cplist nc)
      in bind_err
           (friction_cap self m_eff (normal_contact_force + normal_damping_force) vs dt
              tangOverlapOld norm')
           (\<lambda>(tangential_force, tangOverTemp).
              let fraction = \<bar>processCircleShape (wall end2) pos1 distance (- gapn)\<bar>;
                  Ftotal = smul fraction (normal_force + tangential_force);
                  resultant_momentum = smul fraction (cross Ftotal (pos1 - cpos));
                  cplist = cplist(nc :=
                    set_contact (cplist nc) (smul fraction normal_force)
                      (smul fraction tangential_force) tangOverTemp);
                  particle = particle(end1 :=
                    update_contact_interaction (particle end1) Ftotal resultant_momentum)
              in Inr (particle, cplist, [(End1, Ftotal, resultant_momentum)])))"

text \<open>The total force and the total moment the calls gave to an endpoint.\<close>

definition force_onto :: "endpoint \<Rightarrow> interaction list \<Rightarrow> vec3f" where
  "force_onto e calls = foldr (\<lambda>(e', force, moment) acc. if e' = e then force + acc else acc)
     calls ZEROVEC3f"

definition moment_onto :: "endpoint \<Rightarrow> interaction list \<Rightarrow> vec3f" where
  "moment_onto e calls = foldr (\<lambda>(e', force, moment) acc. if e' = e then moment + acc else acc)
     calls ZEROVEC3f"

subsection \<open>Rebuilding the history from a checkpoint\<close>

record HistoryRecord =
  hist_DstID :: int
  hist_oldTangOverlap :: vec3f

text \<open>
  \<open>kernel_rebulid_history_contact_list\<close> (lines 361-368). The ndarrays are lists; the
  \<open>n\<close> by 3 array of overlaps is a list of triples. Taichi does not define a read outside
  an ndarray; the model stops there with \<open>OutOfBounds\<close> and the writes made so far. The
  result is the error raised, if any, and the two stores.
\<close>

fun rebuild_history_loop ::
  "nat list \<Rightarrow> int list \<Rightarrow> (real \<times> real \<times> real) list \<Rightarrow> (nat \<Rightarrow> HistoryRecord) \<Rightarrow>
   error option \<times> (nat \<Rightarrow> HistoryRecord)" where
  "rebuild_history_loop [] dst oldTangOverlap' hist_cplist = (None, hist_cplist)"
| "rebuild_history_loop (cp # cps) dst oldTangOverlap' hist_cplist =
     (if cp < length dst \<and> cp < length oldTangOverlap' then
        rebuild_history_loop cps dst oldTangOverlap'
          (hist_cplist(cp := (hist_cplist cp)
             \<lparr>hist_DstID := dst ! cp,
              hist_oldTangOverlap :=
                (case oldTangOverlap' ! cp of (o0, o1, o2) \<Rightarrow> Vec3f o0 o1 o2)\<rparr>))
      else (Some OutOfBounds, hist_cplist))"

definition kernel_rebulid_history_contact_list ::
  "(nat \<Rightarrow> HistoryRecord) \<Rightarrow> (nat \<Rightarrow> int) \<Rightarrow> int list \<Rightarrow> int list \<Rightarrow>
   (real \<times> real \<times> real) list \<Rightarrow>
   error option \<times> (nat \<Rightarrow> HistoryRecord) \<times> (nat \<Rightarrow> int)" where
  "kernel_rebulid_history_contact_list hist_cplist hist_object_object object_object dst
       oldTangOverlap' =
     (let hist_object_object =
            fold (\<lambda>i h. h(i := object_object ! i)) [0..<length object_object]
              hist_object_object
      in if object_object = [] then (Some OutOfBounds, hist_cplist, hist_object_object)
         else
           (case rebuild_history_loop [0..<nat (last object_object)] dst oldTangOverlap'
                   hist_cplist of
              (raised, hist_cplist) \<Rightarrow> (raised, hist_cplist, hist_object_object)))"

text \<open>
  \<open>rebuild_ppcontact_list\<close> (lines 112-116) and \<open>rebuild_pwcontact_list\<close> (lines
  118-122). \<open>rebuild_contact_list\<close> of ContactModelBase is not among the sources and
  is a parameter: it turns the checkpoint into the four arrays. \<open>cplist_shape\<close> is
  \<open>self.cplist.shape[0]\<close>. The stores are \<open>self.hist_cplist\<close> and the history count table
  of the contact class (\<open>hist_particle_particle\<close>, \<open>hist_particle_wall\<close>).
\<close>

definition rebuild_ppcontact_list ::
  "('c \<Rightarrow> int list \<times> int list \<times> int list \<times> (real \<times> real \<times> real) list) \<Rightarrow> nat \<Rightarrow>
   (nat \<Rightarrow> HistoryRecord) \<Rightarrow> (nat \<Rightarrow> int) \<Rightarrow> 'c \<Rightarrow>
   error option \<times> (nat \<Rightarrow> HistoryRecord) \<times> (nat \<Rightarrow> int)" where
  "rebuild_ppcontact_list rebuild_contact_list cplist_shape hist_cplist hist_particle_particle
       contact_info =
     (case rebuild_contact_list contact_info of
        (object_object, particle_number, DstID', oldTangOverlap') \<Rightarrow>
          if length DstID' > cplist_shape then
            (Some (RuntimeError ''/body_coordination_number/ should be enlarged''),
             hist_cplist, hist_particle_particle)
          else kernel_rebulid_history_contact_list hist_cplist hist_particle_particle
                 object_object DstID' oldTangOverlap')"

definition rebuild_pwcontact_list ::
  "('c \<Rightarrow> int list \<times> int list \<times> int list \<times> (real \<times> real \<times> real) list) \<Rightarrow> nat \<Rightarrow>
   (nat \<Rightarrow> HistoryRecord) \<Rightarrow> (nat \<Rightarrow> int) \<Rightarrow> 'c \<Rightarrow>
   error option \<times> (nat \<Rightarrow> HistoryRecord) \<times> (nat \<Rightarrow> int)" where
  "rebuild_pwcontact_list rebuild_contact_list cplist_shape hist_cplist hist_particle_wall
       contact_info =
     (case rebuild_contact_list contact_info of
        (object_object, particle_number, DstID', oldTangOverlap') \<Rightarrow>
          if length DstID' > cplist_shape then
            (Some (RuntimeError ''/body_coordination_number/ should be enlarged''),
             hist_cplist, hist_particle_wall)
          else kernel_rebulid_history_contact_list hist_cplist hist_particle_wall
                 object_object DstID' oldTangOverlap')"

subsection \<open>Concrete inputs\<close>

text \<open>
  Instances of the parameters and small stores on which the model is evaluated below:
  a row-major composite index, a property set as a list of named entries whose missing
  entry is an error, a table with the same record in every slot, two unit spheres that
  touch at the origin with the normal along the third axis, a wall at rest whose
  coverage is a given constant, and a contact store with a given old overlap.
\<close>

definition example_componousID :: "int \<Rightarrow> int \<Rightarrow> int \<Rightarrow> int" where
  "example_componousID max_material_num materialID1 materialID2 =
     materialID1 * max_material_num + materialID2"

definition example_GetEssential :: "(string \<times> real) list \<Rightarrow> string \<Rightarrow> error + real" where
  "example_GetEssential property name =
     (case map_of property name of None \<Rightarrow> Inl (MissingEntry name) | Some v \<Rightarrow> Inr v)"

definition example_property :: "real \<Rightarrow> real \<Rightarrow> real \<Rightarrow> real \<Rightarrow> real \<Rightarrow> (string \<times> real) list" where
  "example_property a b c d e =
     [(''NormalStiffness'', a), (''TangentialStiffness'', b), (''Friction'', c),
      (''NormalViscousDamping'', d), (''TangentialViscousDamping'', e)]"

definition example_table :: "int \<Rightarrow> LinearSurfaceProperty" where
  "example_table = (\<lambda>i. \<lparr>kn = 64, ks = 4, mu = 1 / 2, ndratio = 0, sdratio = 0\<rparr>)"

definition example_self :: LinearSurfaceProperty where
  "example_self = \<lparr>kn = 64, ks = 4, mu = 1 / 2, ndratio = 0, sdratio = 0\<rparr>"

definition example_particle :: "nat \<Rightarrow> Particle" where
  "example_particle i =
     (if i = 0 then
        \<lparr>Particle_x = Vec3f 0 0 1, Particle_v = Vec3f 1 0 0, Particle_w = Vec3f 0 0 0,
         Particle_m = 1, Particle_rad = 1,
         contact_force = Vec3f 0 0 0, contact_torque = Vec3f 0 0 0\<rparr>
      else
        \<lparr>Particle_x = Vec3f 0 0 (- 1), Particle_v = Vec3f 0 0 0, Particle_w = Vec3f 0 0 0,
         Particle_m = 1, Particle_rad = 1,
         contact_force = Vec3f 0 0 0, contact_torque = Vec3f 0 0 0\<rparr>)"

definition example_wall :: "real \<Rightarrow> nat \<Rightarrow> Wall" where
  "example_wall coverage i =
     \<lparr>get_velocity = Vec3f 0 0 0, processCircleShape = (\<lambda>pos distance depth. coverage)\<rparr>"

definition example_cplist :: "vec3f \<Rightarrow> nat \<Rightarrow> ContactRecord" where
  "example_cplist overlap i =
     \<lparr>DstID = 1, normalForce = Vec3f 0 0 0, tangentialForce = Vec3f 0 0 0,
      oldTangOverlap = overlap\<rparr>"

definition example_hist_cplist :: "nat \<Rightarrow> HistoryRecord" where
  "example_hist_cplist i = \<lparr>hist_DstID = - 1, hist_oldTangOverlap = Vec3f 0 0 0\<rparr>"

definition example_hist_count :: "nat \<Rightarrow> int" where
  "example_hist_count i = 0"

definition example_rebuild_contact_list ::
  "int list \<times> int list \<times> int list \<times> (real \<times> real \<times> real) list \<Rightarrow>
   int list \<times> int list \<times> int list \<times> (real \<times> real \<times> real) list" where
  "example_rebuild_contact_list contact_info = contact_info"

section \<open>Properties\<close>

subsection \<open>Vector algebra\<close>

lemma vec3f_eq_iff: "a = b \<longleftrightarrow> cx a = cx b \<and> cy a = cy b \<and> cz a = cz b"
  by (cases a; cases b) simp

lemma sel_plus [simp]: "cx (a + b) = cx a + cx b" "cy (a + b) = cy a + cy b" "cz (a + b) = cz a + cz b"
  by (simp_all add: plus_vec3f_def)

lemma sel_minus [simp]: "cx (a - b) = cx a - cx b" "cy (a - b) = cy a - cy b" "cz (a - b) = cz a - cz b"
  by (simp_all add: minus_vec3f_def)

lemma sel_uminus [simp]: "cx (- a) = - cx a" "cy (- a) = - cy a" "cz (- a) = - cz a"
  by (simp_all add: uminus_vec3f_def)

lemma sel_zero [simp]: "cx 0 = 0" "cy 0 = 0" "cz 0 = 0"
  by (simp_all add: zero_vec3f_def)

lemma sel_smul [simp]: "cx (smul a v) = a * cx v" "cy (smul a v) = a * cy v" "cz (smul a v) = a * cz v"
  by (simp_all add: smul_def)

lemma ZEROVEC3f_eq: "ZEROVEC3f = Vec3f 0 0 0"
  by (simp add: ZEROVEC3f_def zero_vec3f_def)

lemma vec_add_ZEROVEC3f: "a + ZEROVEC3f = a"
  by (simp add: ZEROVEC3f_def vec3f_eq_iff)

lemma vec_minus_minus: "- (- a) = (a::vec3f)"
  by (simp add: vec3f_eq_iff)

lemma smul_smul: "smul a (smul b v) = smul (a * b) v"
  by (simp add: vec3f_eq_iff mult.assoc)

lemma smul_zero_left: "smul 0 v = 0"
  by (simp add: vec3f_eq_iff)

lemma smul_ZEROVEC3f: "smul a ZEROVEC3f = ZEROVEC3f"
  by (simp add: ZEROVEC3f_def vec3f_eq_iff)

lemma cross_smul_left: "cross (smul a u) v = smul a (cross u v)"
  by (simp add: cross_def vec3f_eq_iff algebra_simps)

lemma dot_self_ge0: "0 \<le> dot a a" by (simp add: dot_def)

lemma dot_self_eq0: "dot a a = 0 \<longleftrightarrow> a = 0"
  by (auto simp add: dot_def vec3f_eq_iff add_nonneg_eq_0_iff)

lemma norm3_ge0: "0 \<le> norm3 a" by (simp add: norm3_def dot_self_ge0)

lemma norm3_eq0: "norm3 a = 0 \<longleftrightarrow> a = 0"
  by (simp add: norm3_def dot_self_eq0)

lemma norm3_zero: "norm3 0 = 0"
  by (simp add: norm3_eq0)

lemma norm3_uminus: "norm3 (- v) = norm3 v"
  by (simp add: norm3_def dot_def)

lemma norm3_smul: "norm3 (smul a v) = \<bar>a\<bar> * norm3 v"
proof -
  have "dot (smul a v) (smul a v) = a\<^sup>2 * dot v v"
    by (simp add: dot_def power2_eq_square algebra_simps)
  then show ?thesis by (simp add: norm3_def real_sqrt_mult)
qed

lemma norm3_one_dot: "norm3 n = 1 \<Longrightarrow> dot n n = 1"
  by (simp add: norm3_def)

lemma norm3_unit: "norm3 v \<noteq> 0 \<Longrightarrow> norm3 (smul (1 / norm3 v) v) = 1"
  using norm3_ge0 [of v] by (simp add: norm3_smul)

lemma vdiv_Inr: "a \<noteq> 0 \<Longrightarrow> vdiv v a = Inr (smul (1 / a) v)"
  by (simp add: vdiv_def vec3f_eq_iff)

lemma normalized_Inr: "norm3 v \<noteq> 0 \<Longrightarrow> normalized v = Inr (smul (1 / norm3 v) v)"
  by (simp add: normalized_def vdiv_Inr)

lemma Normalize_nonzero: "norm3 v \<noteq> 0 \<Longrightarrow> Normalize v = smul (1 / norm3 v) v"
  by (simp add: Normalize_def)

lemma Normalize_zero: "norm3 v = 0 \<Longrightarrow> Normalize v = ZEROVEC3f"
  by (simp add: Normalize_def)

lemma bind_err_Inr_iff: "bind_err r f = Inr y \<longleftrightarrow> (\<exists>a. r = Inr a \<and> f a = Inr y)"
  by (cases r) (simp_all add: bind_err_def)

lemma bind_err_Inr [simp]: "bind_err (Inr a) f = f a"
  by (simp add: bind_err_def)

lemma bind_err_total:
  assumes "\<exists>r. x = Inr r" and "\<And>a. \<exists>r. f a = Inr r"
  shows "\<exists>r. bind_err x f = Inr r"
  using assms by (auto simp add: bind_err_def)

text \<open>Unfolding rules for the evaluation of the model on concrete inputs.\<close>

lemmas vec_simps = plus_vec3f_def minus_vec3f_def uminus_vec3f_def zero_vec3f_def ZEROVEC3f_def
  smul_def dot_def cross_def norm3_def vdiv_def normalized_def Normalize_def

lemmas law_simps = tangOverlapRot_def tangOverTemp_trial_def trial_ft_def
  tang_damping_force_def fric_def friction_cap_def bind_err_def

subsection \<open>The property table\<close>

lemma LinearSurfaceProperty_add_surface_property_eq:
  "LinearSurfaceProperty_add_surface_property r a b c d e =
     \<lparr>kn = a, ks = b, mu = c, ndratio = d, sdratio = e\<rparr>"
  by (cases r) (simp add: LinearSurfaceProperty_add_surface_property_def)

lemma add_surface_property_result:
  assumes "GetEssential property ''NormalStiffness'' = Inr a"
    and "GetEssential property ''TangentialStiffness'' = Inr b"
    and "GetEssential property ''Friction'' = Inr c"
    and "GetEssential property ''NormalViscousDamping'' = Inr d"
    and "GetEssential property ''TangentialViscousDamping'' = Inr e"
  shows "add_surface_property cid GetEssential t n m1 m2 property =
     Inr (t(cid n m1 m2 := \<lparr>kn = a, ks = b, mu = c, ndratio = d, sdratio = e\<rparr>,
            cid n m2 m1 := \<lparr>kn = a, ks = b, mu = c, ndratio = d, sdratio = e\<rparr>), cid n m2 m1)"
  using assms
  by (simp add: add_surface_property_def Let_def
      LinearSurfaceProperty_add_surface_property_eq)

lemma add_surface_property_Inr:
  assumes "add_surface_property cid GetEssential t n m1 m2 property = Inr (t', c)"
  obtains a b c' d e where
    "t' = t(cid n m1 m2 := \<lparr>kn = a, ks = b, mu = c', ndratio = d, sdratio = e\<rparr>,
            cid n m2 m1 := \<lparr>kn = a, ks = b, mu = c', ndratio = d, sdratio = e\<rparr>)"
proof -
  from assms obtain a b c' d e where
    "GetEssential property ''NormalStiffness'' = Inr a"
    "GetEssential property ''TangentialStiffness'' = Inr b"
    "GetEssential property ''Friction'' = Inr c'"
    "GetEssential property ''NormalViscousDamping'' = Inr d"
    "GetEssential property ''TangentialViscousDamping'' = Inr e"
    unfolding add_surface_property_def bind_err_Inr_iff by blast
  then have "add_surface_property cid GetEssential t n m1 m2 property =
     Inr (t(cid n m1 m2 := \<lparr>kn = a, ks = b, mu = c', ndratio = d, sdratio = e\<rparr>,
            cid n m2 m1 := \<lparr>kn = a, ks = b, mu = c', ndratio = d, sdratio = e\<rparr>), cid n m2 m1)"
    by (rule add_surface_property_result)
  with assms have "t' = t(cid n m1 m2 := \<lparr>kn = a, ks = b, mu = c', ndratio = d, sdratio = e\<rparr>,
            cid n m2 m1 := \<lparr>kn = a, ks = b, mu = c', ndratio = d, sdratio = e\<rparr>)"
    by auto
  then show thesis by (rule that)
qed

lemma inherit_surface_property_result:
  assumes "GetEssential property1 ''NormalStiffness'' = Inr kn1"
    and "GetEssential property1 ''TangentialStiffness'' = Inr ks1"
    and "GetEssential property1 ''Friction'' = Inr mu1"
    and "GetEssential property1 ''NormalViscousDamping'' = Inr dnratio1"
    and "GetEssential property1 ''TangentialViscousDamping'' = Inr dsratio1"
    and "GetEssential property2 ''NormalStiffness'' = Inr kn2"
    and "GetEssential property2 ''TangentialStiffness'' = Inr ks2"
    and "GetEssential property2 ''Friction'' = Inr mu2"
    and "GetEssential property2 ''NormalViscousDamping'' = Inr dnratio2"
    and "GetEssential property2 ''TangentialViscousDamping'' = Inr dsratio2"
  shows "inherit_surface_property cid GetEssential t n m1 m2 property1 property2 =
     Inr (t(cid n m1 m2 := \<lparr>kn = EffectiveValue kn1 kn2, ks = EffectiveValue ks1 ks2, mu = min mu1 mu2,
                              ndratio = min dnratio1 dnratio2, sdratio = min dsratio1 dsratio2\<rparr>,
            cid n m2 m1 := \<lparr>kn = EffectiveValue kn1 kn2, ks = EffectiveValue ks1 ks2, mu = min mu1 mu2,
                              ndratio = min dnratio1 dnratio2, sdratio = min dsratio1 dsratio2\<rparr>), cid n m2 m1)"
  using assms
  by (simp add: inherit_surface_property_def Let_def
      LinearSurfaceProperty_add_surface_property_eq)

lemma inherit_surface_property_Inr:
  assumes "inherit_surface_property cid GetEssential t n m1 m2 property1 property2 = Inr (t', c)"
  obtains r where "t' = t(cid n m1 m2 := r, cid n m2 m1 := r)"
proof -
  from assms obtain kn1 ks1 mu1 dnratio1 dsratio1 kn2 ks2 mu2 dnratio2 dsratio2 where
    "GetEssential property1 ''NormalStiffness'' = Inr kn1"
    "GetEssential property1 ''TangentialStiffness'' = Inr ks1"
    "GetEssential property1 ''Friction'' = Inr mu1"
    "GetEssential property1 ''NormalViscousDamping'' = Inr dnratio1"
    "GetEssential property1 ''TangentialViscousDamping'' = Inr dsratio1"
    "GetEssential property2 ''NormalStiffness'' = Inr kn2"
    "GetEssential property2 ''TangentialStiffness'' = Inr ks2"
    "GetEssential property2 ''Friction'' = Inr mu2"
    "GetEssential property2 ''NormalViscousDamping'' = Inr dnratio2"
    "GetEssential property2 ''TangentialViscousDamping'' = Inr dsratio2"
    unfolding inherit_surface_property_def bind_err_Inr_iff by blast
  then have "inherit_surface_property cid GetEssential t n m1 m2 property1 property2 =
     Inr (t(cid n m1 m2 := \<lparr>kn = EffectiveValue kn1 kn2, ks = EffectiveValue ks1 ks2, mu = min mu1 mu2,
                              ndratio = min dnratio1 dnratio2, sdratio = min dsratio1 dsratio2\<rparr>,
            cid n m2 m1 := \<lparr>kn = EffectiveValue kn1 kn2, ks = EffectiveValue ks1 ks2, mu = min mu1 mu2,
                              ndratio = min dnratio1 dnratio2, sdratio = min dsratio1 dsratio2\<rparr>), cid n m2 m1)"
    by (rule inherit_surface_property_result)
  with assms have "t' = t(cid n m1 m2 := \<lparr>kn = EffectiveValue kn1 kn2, ks = EffectiveValue ks1 ks2, mu = min mu1 mu2,
                              ndratio = min dnratio1 dnratio2, sdratio = min dsratio1 dsratio2\<rparr>,
            cid n m2 m1 := \<lparr>kn = EffectiveValue kn1 kn2, ks = EffectiveValue ks1 ks2, mu = min mu1 mu2,
                              ndratio = min dnratio1 dnratio2, sdratio = min dsratio1 dsratio2\<rparr>)"
    by auto
  then show thesis by (rule that)
qed

subsection \<open>The tangential law\<close>

lemma fric_nonneg: "0 \<le> mu self \<Longrightarrow> 0 \<le> fric self fn"
  by (simp add: fric_def)

lemma trial_ft_ks_zero: "ks self = 0 \<Longrightarrow> norm3 (trial_ft self vs dt old n) = 0"
  by (simp add: trial_ft_def smul_zero_left norm3_zero)

lemma friction_cap_stick:
  "norm3 (trial_ft self vs dt old n) \<le> fric self fn \<Longrightarrow>
   friction_cap self m_eff fn vs dt old n =
     Inr (trial_ft self vs dt old n + tang_damping_force self m_eff vs,
          tangOverTemp_trial vs dt old n)"
  by (simp add: friction_cap_def)

lemma friction_cap_slip:
  assumes mu: "0 \<le> mu self"
    and slip: "fric self fn < norm3 (trial_ft self vs dt old n)"
  shows "friction_cap self m_eff fn vs dt old n =
     Inr (smul (fric self fn / norm3 (trial_ft self vs dt old n)) (trial_ft self vs dt old n),
          smul (- (fric self fn / (ks self * norm3 (trial_ft self vs dt old n))))
            (trial_ft self vs dt old n))"
proof -
  have pos: "0 < norm3 (trial_ft self vs dt old n)"
    using fric_nonneg [OF mu, of fn] slip by linarith
  then have ks: "ks self \<noteq> 0"
    using trial_ft_ks_zero [of self vs dt old n] by auto
  have n: "normalized (trial_ft self vs dt old n) =
      Inr (smul (1 / norm3 (trial_ft self vs dt old n)) (trial_ft self vs dt old n))"
    using pos by (simp add: normalized_Inr)
  show ?thesis
    using slip ks pos
    by (simp add: friction_cap_def n Let_def vdiv_Inr smul_smul vec3f_eq_iff)
qed

lemma friction_cap_total:
  assumes "0 \<le> mu self"
  shows "\<exists>r. friction_cap self m_eff fn vs dt old n = Inr r"
proof (cases "fric self fn < norm3 (trial_ft self vs dt old n)")
  case True
  from friction_cap_slip [OF assms True] show ?thesis by blast
next
  case False
  then show ?thesis by (simp add: friction_cap_stick)
qed

lemma tangOverlapRot_orthogonal: "dot n n = 1 \<Longrightarrow> dot (tangOverlapRot old n) n = 0"
proof -
  assume u: "dot n n = 1"
  have "dot (tangOverlapRot old n) n = dot old n - dot old n * dot n n"
    by (simp add: tangOverlapRot_def dot_def algebra_simps)
  then show ?thesis by (simp add: u)
qed

lemma ex_stick: "friction_cap example_self 1 8 (Vec3f 1 0 0) (1 / 4) (Vec3f 0 0 0) (Vec3f 0 0 1) =
    Inr (Vec3f (- 1) 0 0, Vec3f (1 / 4) 0 0)"
  by (simp add: example_self_def law_simps vec_simps)

lemma ex_slip: "friction_cap example_self 1 8 (Vec3f 1 0 0) (1 / 4) (Vec3f 3 0 0) (Vec3f 0 0 1) =
    Inr (Vec3f (- 4) 0 0, Vec3f 1 0 0)"
  by (simp add: example_self_def law_simps vec_simps)

subsection \<open>The force assemblers\<close>

text \<open>What an assembler that returned has written, with the locals of the source spelled out.\<close>

lemma particle_particle_Inr:
  fixes self nc end1 end2 gapn n cpos dt particle cplist
  defines "m \<equiv> EffectiveValue (Particle_m (particle end1)) (Particle_m (particle end2))"
    and "vrel \<equiv> Particle_v (particle end1) + cross (Particle_w (particle end1))
      (cpos - Particle_x (particle end1)) -
      (Particle_v (particle end2) + cross (Particle_w (particle end2))
        (cpos - Particle_x (particle end2)))"
  defines "fn \<equiv> - kn self * gapn + - 2 * ndratio self * sqrt (m * kn self) * dot vrel n"
    and "vs \<equiv> vrel - smul (dot vrel n) n"
  assumes r: "particle_particle_force_assemble self nc end1 end2 gapn n cpos dt particle cplist =
             Inr (p', c', calls)"
  shows "\<exists>tf ov.
    friction_cap self m fn vs dt (oldTangOverlap (cplist nc)) n = Inr (tf, ov) \<and>
    c' = cplist(nc := set_contact (cplist nc) (smul fn n) tf ov) \<and>
    p' = (particle(end1 := update_contact_interaction (particle end1) (smul fn n + tf)
            (smul (Particle_rad (particle end1) + 0.5 * gapn) (cross tf n))))
          (end2 := update_contact_interaction
            ((particle(end1 := update_contact_interaction (particle end1) (smul fn n + tf)
               (smul (Particle_rad (particle end1) + 0.5 * gapn) (cross tf n)))) end2)
            (- (smul fn n + tf))
            (smul (Particle_rad (particle end2) + 0.5 * gapn) (cross tf n))) \<and>
    calls = [(End1, smul fn n + tf, smul (Particle_rad (particle end1) + 0.5 * gapn) (cross tf n)),
             (End2, - (smul fn n + tf),
                smul (Particle_rad (particle end2) + 0.5 * gapn) (cross tf n))]"
  using r unfolding m_def vrel_def fn_def vs_def
  by (auto simp add: particle_particle_force_assemble_def Let_def bind_err_Inr_iff)

lemma coupled_particle_Inr:
  fixes self nc end1 end2 gapn n cpos dt particle1 particle2 cplist
  defines "m \<equiv> EffectiveValue (Particle_m (particle1 end1)) (Particle_m (particle2 end2))"
    and "vrel \<equiv> Particle_v (particle1 end1) -
      (Particle_v (particle2 end2) + cross (Particle_w (particle2 end2))
        (cpos - Particle_x (particle2 end2)))"
  defines "fn \<equiv> - kn self * gapn + - 2 * ndratio self * sqrt (m * kn self) * dot vrel n"
    and "vs \<equiv> vrel - smul (dot vrel n) n"
  assumes r: "coupled_particle_force_assemble self nc end1 end2 gapn n cpos dt particle1 particle2
             cplist = Inr (p1', p2', c', calls)"
  shows "\<exists>tf ov.
    friction_cap self m fn vs dt (oldTangOverlap (cplist nc)) n = Inr (tf, ov) \<and>
    c' = cplist(nc := set_contact_overlap (cplist nc) ov) \<and>
    p1' = particle1(end1 := update_contact_interaction_force (particle1 end1) (smul fn n + tf)) \<and>
    p2' = particle2(end2 := update_contact_interaction (particle2 end2) (- (smul fn n + tf))
            (cross (smul fn n + tf) (cpos - Particle_x (particle2 end2)))) \<and>
    calls = [(End1, smul fn n + tf, ZEROVEC3f),
             (End2, - (smul fn n + tf),
                cross (smul fn n + tf) (cpos - Particle_x (particle2 end2)))]"
  using r unfolding m_def vrel_def fn_def vs_def
  by (auto simp add: coupled_particle_force_assemble_def Let_def bind_err_Inr_iff)

lemma particle_wall_Inr:
  fixes self nc end1 end2 distance gapn n cpos dt particle wall cplist
  defines "m \<equiv> Particle_m (particle end1)"
    and "vrel \<equiv> Particle_v (particle end1) + cross (Particle_w (particle end1))
      (cpos - Particle_x (particle end1)) - get_velocity (wall end2)"
  defines "fn \<equiv> - kn self * gapn + - 2 * ndratio self * sqrt (m * kn self) * dot vrel n"
    and "vs \<equiv> vrel - smul (dot vrel n) n"
    and "fraction \<equiv> \<bar>processCircleShape (wall end2) (Particle_x (particle end1)) distance (- gapn)\<bar>"
  assumes r: "particle_wall_force_assemble self nc end1 end2 distance gapn n cpos dt particle wall
             cplist = Inr (p', c', calls)"
  shows "\<exists>tf ov.
    friction_cap self m fn vs dt (oldTangOverlap (cplist nc)) n = Inr (tf, ov) \<and>
    c' = cplist(nc := set_contact (cplist nc) (smul fraction (smul fn n)) (smul fraction tf) ov) \<and>
    p' = particle(end1 := update_contact_interaction (particle end1)
           (smul fraction (smul fn n + tf))
           (smul fraction (cross (smul fraction (smul fn n + tf))
              (Particle_x (particle end1) - cpos)))) \<and>
    calls = [(End1, smul fraction (smul fn n + tf),
              smul fraction (cross (smul fraction (smul fn n + tf))
                (Particle_x (particle end1) - cpos)))]"
  using r unfolding m_def vrel_def fn_def vs_def fraction_def
  by (auto simp add: particle_wall_force_assemble_def Let_def bind_err_Inr_iff)

lemma particle_particle_link:
  assumes "particle_particle_force_assemble self nc end1 end2 gapn n cpos dt particle cplist =
             Inr (p', c', calls)"
  shows "\<exists>m_eff fn vs.
           friction_cap self m_eff fn vs dt (oldTangOverlap (cplist nc)) n =
             Inr (tangentialForce (c' nc), oldTangOverlap (c' nc)) \<and>
           normalForce (c' nc) = smul fn n"
proof -
  let ?m = "EffectiveValue (Particle_m (particle end1)) (Particle_m (particle end2))"
  let ?vrel = "Particle_v (particle end1) + cross (Particle_w (particle end1))
      (cpos - Particle_x (particle end1)) -
      (Particle_v (particle end2) + cross (Particle_w (particle end2))
        (cpos - Particle_x (particle end2)))"
  let ?fn = "- kn self * gapn + - 2 * ndratio self * sqrt (?m * kn self) * dot ?vrel n"
  let ?vs = "?vrel - smul (dot ?vrel n) n"
  from assms obtain tf ov where
    fc: "friction_cap self ?m ?fn ?vs dt (oldTangOverlap (cplist nc)) n = Inr (tf, ov)" and
    c': "c' = cplist(nc := set_contact (cplist nc) (smul ?fn n) tf ov)"
    by (auto simp add: particle_particle_force_assemble_def Let_def bind_err_Inr_iff)
  have "tangentialForce (c' nc) = tf" "oldTangOverlap (c' nc) = ov"
    "normalForce (c' nc) = smul ?fn n"
    by (simp_all add: c' set_contact_def)
  with fc show ?thesis
    by (intro exI [of _ ?m] exI [of _ ?fn] exI [of _ ?vs]) simp
qed

lemma particle_wall_link:
  assumes "particle_wall_force_assemble self nc end1 end2 distance gapn n cpos dt particle wall
             cplist = Inr (p', c', calls)"
  shows "\<exists>m_eff fn vs tf.
           friction_cap self m_eff fn vs dt (oldTangOverlap (cplist nc)) n =
             Inr (tf, oldTangOverlap (c' nc)) \<and>
           tangentialForce (c' nc) =
             smul \<bar>processCircleShape (wall end2) (Particle_x (particle end1)) distance (- gapn)\<bar> tf \<and>
           normalForce (c' nc) =
             smul \<bar>processCircleShape (wall end2) (Particle_x (particle end1)) distance (- gapn)\<bar>
               (smul fn n)"
proof -
  let ?m = "Particle_m (particle end1)"
  let ?vrel = "Particle_v (particle end1) + cross (Particle_w (particle end1))
      (cpos - Particle_x (particle end1)) - get_velocity (wall end2)"
  let ?fn = "- kn self * gapn + - 2 * ndratio self * sqrt (?m * kn self) * dot ?vrel n"
  let ?vs = "?vrel - smul (dot ?vrel n) n"
  let ?f = "\<bar>processCircleShape (wall end2) (Particle_x (particle end1)) distance (- gapn)\<bar>"
  from assms obtain tf ov where
    fc: "friction_cap self ?m ?fn ?vs dt (oldTangOverlap (cplist nc)) n = Inr (tf, ov)" and
    c': "c' = cplist(nc := set_contact (cplist nc) (smul ?f (smul ?fn n)) (smul ?f tf) ov)"
    by (auto simp add: particle_wall_force_assemble_def Let_def bind_err_Inr_iff)
  have "tangentialForce (c' nc) = smul ?f tf" "oldTangOverlap (c' nc) = ov"
    "normalForce (c' nc) = smul ?f (smul ?fn n)"
    by (simp_all add: c' set_contact_def)
  with fc show ?thesis
    by (intro exI [of _ ?m] exI [of _ ?fn] exI [of _ ?vs] exI [of _ tf]) simp
qed

lemma coupled_particle_link:
  assumes "coupled_particle_force_assemble self nc end1 end2 gapn n cpos dt particle1 particle2
             cplist = Inr (p1', p2', c', calls)"
  shows "\<exists>m_eff fn vs tf.
           friction_cap self m_eff fn vs dt (oldTangOverlap (cplist nc)) n =
             Inr (tf, oldTangOverlap (c' nc))"
proof -
  let ?m = "EffectiveValue (Particle_m (particle1 end1)) (Particle_m (particle2 end2))"
  let ?vrel = "Particle_v (particle1 end1) -
      (Particle_v (particle2 end2) + cross (Particle_w (particle2 end2))
        (cpos - Particle_x (particle2 end2)))"
  let ?fn = "- kn self * gapn + - 2 * ndratio self * sqrt (?m * kn self) * dot ?vrel n"
  let ?vs = "?vrel - smul (dot ?vrel n) n"
  from assms obtain tf ov where
    fc: "friction_cap self ?m ?fn ?vs dt (oldTangOverlap (cplist nc)) n = Inr (tf, ov)" and
    c': "c' = cplist(nc := set_contact_overlap (cplist nc) ov)"
    by (auto simp add: coupled_particle_force_assemble_def Let_def bind_err_Inr_iff)
  have "oldTangOverlap (c' nc) = ov"
    by (simp add: c' set_contact_overlap_def)
  with fc show ?thesis
    by (intro exI [of _ ?m] exI [of _ ?fn] exI [of _ ?vs] exI [of _ tf]) simp
qed

lemma particle_particle_total:
  assumes "0 \<le> mu self"
  shows "\<exists>r. particle_particle_force_assemble self nc end1 end2 gapn n cpos dt particle cplist = Inr r"
  unfolding particle_particle_force_assemble_def Let_def
  by (rule bind_err_total, rule friction_cap_total [OF assms]) (simp split: prod.splits)

lemma coupled_particle_total:
  assumes "0 \<le> mu self"
  shows "\<exists>r. coupled_particle_force_assemble self nc end1 end2 gapn n cpos dt particle1 particle2
            cplist = Inr r"
  unfolding coupled_particle_force_assemble_def Let_def
  by (rule bind_err_total, rule friction_cap_total [OF assms]) (simp split: prod.splits)

lemma particle_wall_total:
  assumes "0 \<le> mu self"
  shows "\<exists>r. particle_wall_force_assemble self nc end1 end2 distance gapn n cpos dt particle wall
            cplist = Inr r"
  unfolding particle_wall_force_assemble_def Let_def
  by (rule bind_err_total, rule friction_cap_total [OF assms]) (simp split: prod.splits)

lemma force_onto_pair:
  "force_onto End1 [(End1, F, M1), (End2, G, M2)] = F"
  "force_onto End2 [(End1, F, M1), (End2, G, M2)] = G"
  by (simp_all add: force_onto_def vec_add_ZEROVEC3f)

lemma force_onto_single:
  "force_onto End1 [(End1, F, M1)] = F"
  "force_onto End2 [(End1, F, M1)] = ZEROVEC3f"
  by (simp_all add: force_onto_def vec_add_ZEROVEC3f)

lemma moment_onto_single:
  "moment_onto End1 [(End1, F, M1)] = M1"
  by (simp add: moment_onto_def vec_add_ZEROVEC3f)

lemma particle_wall_moment_scaling:
  assumes "particle_wall_force_assemble self nc end1 end2 distance gapn n cpos dt particle wall
             cplist = Inr (p', c', calls)"
  shows "\<exists>F. force_onto End1 calls =
            smul \<bar>processCircleShape (wall end2) (Particle_x (particle end1)) distance (- gapn)\<bar> F \<and>
          moment_onto End1 calls =
            smul (\<bar>processCircleShape (wall end2) (Particle_x (particle end1)) distance (- gapn)\<bar> *
                  \<bar>processCircleShape (wall end2) (Particle_x (particle end1)) distance (- gapn)\<bar>)
              (cross F (Particle_x (particle end1) - cpos))"
proof -
  from particle_wall_Inr [OF assms] obtain F where
    "calls = [(End1,
        smul \<bar>processCircleShape (wall end2) (Particle_x (particle end1)) distance (- gapn)\<bar> F,
        smul \<bar>processCircleShape (wall end2) (Particle_x (particle end1)) distance (- gapn)\<bar>
          (cross (smul \<bar>processCircleShape (wall end2) (Particle_x (particle end1)) distance
              (- gapn)\<bar> F)
            (Particle_x (particle end1) - cpos)))]"
    by blast
  then show ?thesis
    by (intro exI [of _ F]) (simp add: force_onto_single moment_onto_single cross_smul_left smul_smul)
qed

text \<open>The assemblers on the example contact.\<close>

lemma ex_pp: "particle_particle_force_assemble example_self 0 0 1 (- 1 / 8) (Vec3f 0 0 1) (Vec3f 0 0 0)
     (1 / 4) example_particle (example_cplist (Vec3f 0 0 0)) =
   Inr (example_particle
          (0 := (example_particle 0)\<lparr>contact_force := Vec3f (- 1) 0 8,
                                     contact_torque := Vec3f 0 (15 / 16) 0\<rparr>,
           1 := (example_particle 1)\<lparr>contact_force := Vec3f 1 0 (- 8),
                                     contact_torque := Vec3f 0 (15 / 16) 0\<rparr>),
        (example_cplist (Vec3f 0 0 0))
          (0 := \<lparr>DstID = 1, normalForce = Vec3f 0 0 8, tangentialForce = Vec3f (- 1) 0 0,
                 oldTangOverlap = Vec3f (1 / 4) 0 0\<rparr>),
        [(End1, Vec3f (- 1) 0 8, Vec3f 0 (15 / 16) 0),
         (End2, Vec3f 1 0 (- 8), Vec3f 0 (15 / 16) 0)])"
  by (simp add: particle_particle_force_assemble_def example_self_def example_particle_def
      example_cplist_def EffectiveValue_def Let_def law_simps vec_simps
      set_contact_def update_contact_interaction_def)

lemma ex_coupled: "coupled_particle_force_assemble example_self 0 0 1 (- 1 / 8) (Vec3f 0 0 1)
     (Vec3f 0 0 0) (1 / 4) example_particle example_particle (example_cplist (Vec3f 0 0 0)) =
   Inr (example_particle
          (0 := (example_particle 0)\<lparr>contact_force := Vec3f (- 1) 0 8\<rparr>),
        example_particle
          (1 := (example_particle 1)\<lparr>contact_force := Vec3f 1 0 (- 8),
                                     contact_torque := Vec3f 0 1 0\<rparr>),
        (example_cplist (Vec3f 0 0 0))
          (0 := \<lparr>DstID = 1, normalForce = Vec3f 0 0 0, tangentialForce = Vec3f 0 0 0,
                 oldTangOverlap = Vec3f (1 / 4) 0 0\<rparr>),
        [(End1, Vec3f (- 1) 0 8, Vec3f 0 0 0),
         (End2, Vec3f 1 0 (- 8), Vec3f 0 1 0)])"
  by (simp add: coupled_particle_force_assemble_def example_self_def example_particle_def
      example_cplist_def EffectiveValue_def Let_def law_simps vec_simps
      set_contact_overlap_def update_contact_interaction_def update_contact_interaction_force_def)

lemma ex_pw_full: "particle_wall_force_assemble example_self 0 0 0 (7 / 8) (- 1 / 8) (Vec3f 0 0 1)
     (Vec3f 0 0 0) (1 / 4) example_particle (example_wall 1) (example_cplist (Vec3f 0 0 0)) =
   Inr (example_particle
          (0 := (example_particle 0)\<lparr>contact_force := Vec3f (- 1) 0 8,
                                     contact_torque := Vec3f 0 1 0\<rparr>),
        (example_cplist (Vec3f 0 0 0))
          (0 := \<lparr>DstID = 1, normalForce = Vec3f 0 0 8, tangentialForce = Vec3f (- 1) 0 0,
                 oldTangOverlap = Vec3f (1 / 4) 0 0\<rparr>),
        [(End1, Vec3f (- 1) 0 8, Vec3f 0 1 0)])"
  by (simp add: particle_wall_force_assemble_def example_self_def example_particle_def
      example_wall_def example_cplist_def Let_def law_simps vec_simps
      set_contact_def update_contact_interaction_def)

lemma ex_pw: "particle_wall_force_assemble example_self 0 0 0 (7 / 8) (- 1 / 8) (Vec3f 0 0 1)
     (Vec3f 0 0 0) (1 / 4) example_particle (example_wall (1 / 2)) (example_cplist (Vec3f 0 0 0)) =
   Inr (example_particle
          (0 := (example_particle 0)\<lparr>contact_force := Vec3f (- 1 / 2) 0 4,
                                     contact_torque := Vec3f 0 (1 / 4) 0\<rparr>),
        (example_cplist (Vec3f 0 0 0))
          (0 := \<lparr>DstID = 1, normalForce = Vec3f 0 0 4, tangentialForce = Vec3f (- 1 / 2) 0 0,
                 oldTangOverlap = Vec3f (1 / 4) 0 0\<rparr>),
        [(End1, Vec3f (- 1 / 2) 0 4, Vec3f 0 (1 / 4) 0)])"
  by (simp add: particle_wall_force_assemble_def example_self_def example_particle_def
      example_wall_def example_cplist_def Let_def law_simps vec_simps
      set_contact_def update_contact_interaction_def)

subsection \<open>The rebuild entry points\<close>

lemma rebuild_history_loop_raised:
  "fst (rebuild_history_loop cps dst ov h) = None \<or>
   fst (rebuild_history_loop cps dst ov h) = Some OutOfBounds"
  by (induction cps arbitrary: h) simp_all

lemma kernel_raised:
  "fst (kernel_rebulid_history_contact_list h ho oo dst ov) = None \<or>
   fst (kernel_rebulid_history_contact_list h ho oo dst ov) = Some OutOfBounds"
  using rebuild_history_loop_raised [of "[0..<nat (last oo)]" dst ov h]
  by (auto simp add: kernel_rebulid_history_contact_list_def Let_def split: prod.splits)

lemma kernel_not_RuntimeError:
  "fst (kernel_rebulid_history_contact_list h ho oo dst ov) \<noteq> Some (RuntimeError msg)"
  using kernel_raised [of h ho oo dst ov] by auto

lemma upt_2: "[0..<2] = [0, Suc 0]"
  by (simp add: upt_rec numeral_2_eq_2)

lemma ex_rebuild_raise:
  "rebuild_ppcontact_list example_rebuild_contact_list 1 example_hist_cplist example_hist_count
     ([0, 2], [2], [1, 0], [(0, 0, 0), (1, 0, 0)]) =
   (Some (RuntimeError ''/body_coordination_number/ should be enlarged''),
    example_hist_cplist, example_hist_count)"
  by (simp add: rebuild_ppcontact_list_def example_rebuild_contact_list_def)

lemma ex_rebuild_ok:
  "rebuild_ppcontact_list example_rebuild_contact_list 2 example_hist_cplist example_hist_count
     ([0, 2], [2], [1, 0], [(0, 0, 0), (1, 0, 0)]) =
   (None,
    example_hist_cplist
      (0 := \<lparr>hist_DstID = 1, hist_oldTangOverlap = Vec3f 0 0 0\<rparr>,
       Suc 0 := \<lparr>hist_DstID = 0, hist_oldTangOverlap = Vec3f 1 0 0\<rparr>),
    example_hist_count(0 := 0, Suc 0 := 2))"
  by (simp add: rebuild_ppcontact_list_def example_rebuild_contact_list_def
      kernel_rebulid_history_contact_list_def Let_def upt_2 example_hist_cplist_def)

section \<open>The claims\<close>

text \<open>
  C1. Friction cap (return mapping). Stick: when the norm of the trial tangential force is
  at most the friction limit \<open>mu * \<bar>fn\<bar>\<close> (\<open>fn\<close> the scalar normal force, spring plus
  damping; for a unit normal \<open>\<bar>fn\<bar>\<close> is the norm of the normal force vector), the
  tangential force is the trial force plus the tangential damping force.
  Slip: when the friction coefficient is nonnegative and the norm of the trial force
  exceeds the limit, the tangential force has norm exactly \<open>mu * \<bar>fn\<bar>\<close> and is a
  nonnegative multiple of the trial force. The particle-particle assembler stores this
  tangential force (and \<open>fn\<close> times the normal) in the contact record; the particle-wall
  assembler stores both scaled by the coverage fraction.
\<close>

theorem friction_cap_return_mapping:
  "(norm3 n = 1 \<longrightarrow> norm3 (smul fn n) = \<bar>fn\<bar>) \<and>
   (norm3 (trial_ft self vs dt old n) \<le> fric self fn \<longrightarrow>
      (\<exists>ov. friction_cap self m_eff fn vs dt old n =
         Inr (trial_ft self vs dt old n + tang_damping_force self m_eff vs, ov))) \<and>
   (0 \<le> mu self \<and> fric self fn < norm3 (trial_ft self vs dt old n) \<longrightarrow>
      (\<exists>tf ov. friction_cap self m_eff fn vs dt old n = Inr (tf, ov) \<and>
         norm3 tf = mu self * \<bar>fn\<bar> \<and>
         tf = smul (mu self * \<bar>fn\<bar> / norm3 (trial_ft self vs dt old n))
                (trial_ft self vs dt old n) \<and>
         0 \<le> mu self * \<bar>fn\<bar> / norm3 (trial_ft self vs dt old n))) \<and>
   (particle_particle_force_assemble self nc end1 end2 gapn n cpos dt particle cplist =
      Inr (p', c', calls) \<longrightarrow>
      (\<exists>m_eff fn vs.
         friction_cap self m_eff fn vs dt (oldTangOverlap (cplist nc)) n =
           Inr (tangentialForce (c' nc), oldTangOverlap (c' nc)) \<and>
         normalForce (c' nc) = smul fn n)) \<and>
   (particle_wall_force_assemble self nc end1 end2 distance gapn n cpos dt particle wall cplist =
      Inr (pw', cw', callsw) \<longrightarrow>
      (\<exists>m_eff fn vs tf.
         friction_cap self m_eff fn vs dt (oldTangOverlap (cplist nc)) n =
           Inr (tf, oldTangOverlap (cw' nc)) \<and>
         tangentialForce (cw' nc) =
           smul \<bar>processCircleShape (wall end2) (Particle_x (particle end1)) distance (- gapn)\<bar> tf \<and>
         normalForce (cw' nc) =
           smul \<bar>processCircleShape (wall end2) (Particle_x (particle end1)) distance (- gapn)\<bar>
             (smul fn n)))"
proof (intro conjI impI)
  assume "norm3 n = 1"
  then show "norm3 (smul fn n) = \<bar>fn\<bar>"
    by (simp add: norm3_smul)
next
  assume "norm3 (trial_ft self vs dt old n) \<le> fric self fn"
  then show "\<exists>ov. friction_cap self m_eff fn vs dt old n =
         Inr (trial_ft self vs dt old n + tang_damping_force self m_eff vs, ov)"
    by (simp add: friction_cap_stick)
next
  assume a: "0 \<le> mu self \<and> fric self fn < norm3 (trial_ft self vs dt old n)"
  then have mu: "0 \<le> mu self" and slip: "fric self fn < norm3 (trial_ft self vs dt old n)"
    by simp_all
  have pos: "0 < norm3 (trial_ft self vs dt old n)"
    using fric_nonneg [OF mu, of fn] slip by linarith
  have f: "0 \<le> fric self fn" using mu by (rule fric_nonneg)
  have nrm: "norm3 (smul (fric self fn / norm3 (trial_ft self vs dt old n))
                (trial_ft self vs dt old n)) = fric self fn"
    using pos f by (simp add: norm3_smul)
  show "\<exists>tf ov. friction_cap self m_eff fn vs dt old n = Inr (tf, ov) \<and>
         norm3 tf = mu self * \<bar>fn\<bar> \<and>
         tf = smul (mu self * \<bar>fn\<bar> / norm3 (trial_ft self vs dt old n))
                (trial_ft self vs dt old n) \<and>
         0 \<le> mu self * \<bar>fn\<bar> / norm3 (trial_ft self vs dt old n)"
    using friction_cap_slip [OF mu slip, of m_eff] nrm f pos
    by (simp add: fric_def)
next
  assume "particle_particle_force_assemble self nc end1 end2 gapn n cpos dt particle cplist =
      Inr (p', c', calls)"
  then show "\<exists>m_eff fn vs.
         friction_cap self m_eff fn vs dt (oldTangOverlap (cplist nc)) n =
           Inr (tangentialForce (c' nc), oldTangOverlap (c' nc)) \<and>
         normalForce (c' nc) = smul fn n"
    by (rule particle_particle_link)
next
  assume "particle_wall_force_assemble self nc end1 end2 distance gapn n cpos dt particle wall cplist =
      Inr (pw', cw', callsw)"
  then show "\<exists>m_eff fn vs tf.
         friction_cap self m_eff fn vs dt (oldTangOverlap (cplist nc)) n =
           Inr (tf, oldTangOverlap (cw' nc)) \<and>
         tangentialForce (cw' nc) =
           smul \<bar>processCircleShape (wall end2) (Particle_x (particle end1)) distance (- gapn)\<bar> tf \<and>
         normalForce (cw' nc) =
           smul \<bar>processCircleShape (wall end2) (Particle_x (particle end1)) distance (- gapn)\<bar>
             (smul fn n)"
    by (rule particle_wall_link)
qed

theorem friction_cap_return_mapping_witness:
  "norm3 (Vec3f 0 0 1) = 1 \<and> norm3 (smul 8 (Vec3f 0 0 1)) = \<bar>8\<bar> \<and>
   norm3 (trial_ft example_self (Vec3f 1 0 0) (1 / 4) (Vec3f 0 0 0) (Vec3f 0 0 1)) \<le>
     fric example_self 8 \<and>
   friction_cap example_self 1 8 (Vec3f 1 0 0) (1 / 4) (Vec3f 0 0 0) (Vec3f 0 0 1) =
     Inr (Vec3f (- 1) 0 0, Vec3f (1 / 4) 0 0) \<and>
   0 \<le> mu example_self \<and>
   fric example_self 8 <
     norm3 (trial_ft example_self (Vec3f 1 0 0) (1 / 4) (Vec3f 3 0 0) (Vec3f 0 0 1)) \<and>
   friction_cap example_self 1 8 (Vec3f 1 0 0) (1 / 4) (Vec3f 3 0 0) (Vec3f 0 0 1) =
     Inr (Vec3f (- 4) 0 0, Vec3f 1 0 0) \<and>
   norm3 (Vec3f (- 4) 0 0) = mu example_self * \<bar>8\<bar> \<and>
   (\<exists>m_eff fn vs.
      friction_cap example_self m_eff fn vs (1 / 4) (Vec3f 0 0 0) (Vec3f 0 0 1) =
        Inr (Vec3f (- 1) 0 0, Vec3f (1 / 4) 0 0) \<and> Vec3f 0 0 8 = smul fn (Vec3f 0 0 1)) \<and>
   (\<exists>m_eff fn vs tf.
      friction_cap example_self m_eff fn vs (1 / 4) (Vec3f 0 0 0) (Vec3f 0 0 1) =
        Inr (tf, Vec3f (1 / 4) 0 0) \<and> Vec3f (- 1 / 2) 0 0 = smul \<bar>1 / 2\<bar> tf)"
proof -
  have stick: "norm3 (trial_ft example_self (Vec3f 1 0 0) (1 / 4) (Vec3f 0 0 0) (Vec3f 0 0 1)) \<le>
     fric example_self 8"
    by (simp add: example_self_def law_simps vec_simps)
  have slip: "0 \<le> mu example_self \<and> fric example_self 8 <
     norm3 (trial_ft example_self (Vec3f 1 0 0) (1 / 4) (Vec3f 3 0 0) (Vec3f 0 0 1))"
    by (simp add: example_self_def law_simps vec_simps)
  note a = friction_cap_return_mapping [THEN conjunct2, THEN conjunct1, rule_format, OF stick,
      of 1]
  note b = friction_cap_return_mapping [THEN conjunct2, THEN conjunct2, THEN conjunct1,
      rule_format, OF slip, of 1]
  note c = friction_cap_return_mapping [THEN conjunct2, THEN conjunct2, THEN conjunct2,
      THEN conjunct1, rule_format, OF ex_pp]
  note d = friction_cap_return_mapping [THEN conjunct2, THEN conjunct2, THEN conjunct2,
      THEN conjunct2, rule_format, OF ex_pw]
  have 1: "friction_cap example_self 1 8 (Vec3f 1 0 0) (1 / 4) (Vec3f 0 0 0) (Vec3f 0 0 1) =
     Inr (Vec3f (- 1) 0 0, Vec3f (1 / 4) 0 0)"
    using a ex_stick by simp
  have 2: "friction_cap example_self 1 8 (Vec3f 1 0 0) (1 / 4) (Vec3f 3 0 0) (Vec3f 0 0 1) =
     Inr (Vec3f (- 4) 0 0, Vec3f 1 0 0) \<and> norm3 (Vec3f (- 4) 0 0) = mu example_self * \<bar>8\<bar>"
    using b ex_slip by auto
  have 3: "\<exists>m_eff fn vs.
      friction_cap example_self m_eff fn vs (1 / 4) (Vec3f 0 0 0) (Vec3f 0 0 1) =
        Inr (Vec3f (- 1) 0 0, Vec3f (1 / 4) 0 0) \<and> Vec3f 0 0 8 = smul fn (Vec3f 0 0 1)"
    using c by (simp add: example_cplist_def)
  have 4: "\<exists>m_eff fn vs tf.
      friction_cap example_self m_eff fn vs (1 / 4) (Vec3f 0 0 0) (Vec3f 0 0 1) =
        Inr (tf, Vec3f (1 / 4) 0 0) \<and> Vec3f (- 1 / 2) 0 0 = smul \<bar>1 / 2\<bar> tf"
    using d by (simp add: example_cplist_def example_wall_def) blast
  have u: "norm3 (Vec3f 0 0 1) = 1"
    by (simp add: vec_simps)
  have 0: "norm3 (smul 8 (Vec3f 0 0 1)) = \<bar>8\<bar>"
    using friction_cap_return_mapping [THEN conjunct1, rule_format, OF u, of 8] .
  from u 0 stick slip 1 2 3 4 show ?thesis by simp
qed

text \<open>
  C2. Rotation-projection of the old overlap. When the old overlap has a nonzero
  projection \<open>tangOverlapRot\<close>, the overlap before the friction cap is the increment
  \<open>dt * vs\<close> plus the norm of the old overlap times the unit vector of the projection; the
  carried term has the norm of the old overlap; and for a unit normal the projection is
  orthogonal to the normal and differs from the old overlap by a multiple of the normal.
\<close>

theorem rotation_projection_carry:
  assumes "tangOverlapRot old n \<noteq> 0"
  shows "tangOverTemp_trial vs dt old n =
           smul dt vs + smul (norm3 old)
             (smul (1 / norm3 (tangOverlapRot old n)) (tangOverlapRot old n)) \<and>
         norm3 (smul (1 / norm3 (tangOverlapRot old n)) (tangOverlapRot old n)) = 1 \<and>
         norm3 (smul (norm3 old)
             (smul (1 / norm3 (tangOverlapRot old n)) (tangOverlapRot old n))) = norm3 old \<and>
         (norm3 n = 1 \<longrightarrow>
            dot (tangOverlapRot old n) n = 0 \<and>
            old - tangOverlapRot old n = smul (dot old n) n)"
proof -
  have nz: "norm3 (tangOverlapRot old n) \<noteq> 0"
    using assms by (simp add: norm3_eq0)
  have a: "tangOverTemp_trial vs dt old n =
           smul dt vs + smul (norm3 old)
             (smul (1 / norm3 (tangOverlapRot old n)) (tangOverlapRot old n))"
    by (simp add: tangOverTemp_trial_def Normalize_nonzero [OF nz])
  have b: "norm3 (smul (1 / norm3 (tangOverlapRot old n)) (tangOverlapRot old n)) = 1"
    using nz by (rule norm3_unit)
  have c: "norm3 (smul (norm3 old)
             (smul (1 / norm3 (tangOverlapRot old n)) (tangOverlapRot old n))) = norm3 old"
    using norm3_ge0 [of old] by (simp add: norm3_smul [of "norm3 old"] b)
  have d: "norm3 n = 1 \<longrightarrow> dot (tangOverlapRot old n) n = 0"
    by (simp add: norm3_one_dot tangOverlapRot_orthogonal)
  have e: "old - tangOverlapRot old n = smul (dot old n) n"
    by (simp add: tangOverlapRot_def vec3f_eq_iff)
  from a b c d e show ?thesis by blast
qed

theorem rotation_projection_carry_witness:
  "tangOverlapRot (Vec3f 3 0 4) (Vec3f 0 0 1) = Vec3f 3 0 0 \<and>
   tangOverTemp_trial (Vec3f 1 0 0) (1 / 4) (Vec3f 3 0 4) (Vec3f 0 0 1) = Vec3f (21 / 4) 0 0 \<and>
   norm3 (Vec3f 3 0 4) = 5 \<and>
   norm3 (smul (norm3 (Vec3f 3 0 4))
      (smul (1 / norm3 (tangOverlapRot (Vec3f 3 0 4) (Vec3f 0 0 1)))
         (tangOverlapRot (Vec3f 3 0 4) (Vec3f 0 0 1)))) = 5 \<and>
   norm3 (Vec3f 0 0 1) = 1 \<and>
   dot (tangOverlapRot (Vec3f 3 0 4) (Vec3f 0 0 1)) (Vec3f 0 0 1) = 0"
proof -
  have rot: "tangOverlapRot (Vec3f 3 0 4) (Vec3f 0 0 1) = Vec3f 3 0 0"
    by (simp add: law_simps vec_simps)
  have nz: "tangOverlapRot (Vec3f 3 0 4) (Vec3f 0 0 1) \<noteq> 0"
    by (simp add: rot zero_vec3f_def)
  have n5: "norm3 (Vec3f 3 0 4) = 5" and n1: "norm3 (Vec3f 0 0 1) = 1"
    by (simp_all add: vec_simps)
  from rotation_projection_carry [OF nz, of "Vec3f 1 0 0" "1 / 4"] n5 n1 rot
  show ?thesis by (simp add: vec_simps)
qed

text \<open>
  C3. Partial coverage of a wall. On the contact of the first example particle with a wall
  of full coverage the particle receives the force \<open>(-1, 0, 8)\<close> and the moment
  \<open>(0, 1, 0)\<close>. With coverage one half it receives half the force, \<open>(-1/2, 0, 4)\<close>, and
  a quarter of the moment, \<open>(0, 1/4, 0)\<close>: the moment is scaled by the fraction twice
  (lines 316-317; \<open>particle_wall_moment_scaling\<close> has it for every input).
\<close>

theorem particle_wall_coverage_moment_scaled_twice:
  "particle_wall_force_assemble example_self 0 0 0 (7 / 8) (- 1 / 8) (Vec3f 0 0 1)
     (Vec3f 0 0 0) (1 / 4) example_particle (example_wall 1) (example_cplist (Vec3f 0 0 0)) =
   Inr (example_particle
          (0 := (example_particle 0)\<lparr>contact_force := Vec3f (- 1) 0 8,
                                     contact_torque := Vec3f 0 1 0\<rparr>),
        (example_cplist (Vec3f 0 0 0))
          (0 := \<lparr>DstID = 1, normalForce = Vec3f 0 0 8, tangentialForce = Vec3f (- 1) 0 0,
                 oldTangOverlap = Vec3f (1 / 4) 0 0\<rparr>),
        [(End1, Vec3f (- 1) 0 8, Vec3f 0 1 0)]) \<and>
   particle_wall_force_assemble example_self 0 0 0 (7 / 8) (- 1 / 8) (Vec3f 0 0 1)
     (Vec3f 0 0 0) (1 / 4) example_particle (example_wall (1 / 2)) (example_cplist (Vec3f 0 0 0)) =
   Inr (example_particle
          (0 := (example_particle 0)\<lparr>contact_force := Vec3f (- 1 / 2) 0 4,
                                     contact_torque := Vec3f 0 (1 / 4) 0\<rparr>),
        (example_cplist (Vec3f 0 0 0))
          (0 := \<lparr>DstID = 1, normalForce = Vec3f 0 0 4, tangentialForce = Vec3f (- 1 / 2) 0 0,
                 oldTangOverlap = Vec3f (1 / 4) 0 0\<rparr>),
        [(End1, Vec3f (- 1 / 2) 0 4, Vec3f 0 (1 / 4) 0)]) \<and>
   Vec3f (- 1 / 2) 0 4 = smul (1 / 2) (Vec3f (- 1) 0 8) \<and>
   Vec3f 0 (1 / 4) 0 \<noteq> smul (1 / 2) (Vec3f 0 1 0) \<and>
   Vec3f 0 (1 / 4) 0 = smul (1 / 2 * (1 / 2)) (Vec3f 0 1 0)"
  using ex_pw ex_pw_full by (simp add: smul_def)

text \<open>
  C4. Newton's third law. For a particle-particle and for a coupled-particle contact the
  force given to the first endpoint is the negation of the force given to the second, in
  the calls and (for distinct endpoints of one store) in the accumulators. For a
  particle-wall contact the particle alone receives a force: no call is made for the
  wall.
\<close>

theorem newton_third_law_particle_endpoints:
  "(particle_particle_force_assemble self nc end1 end2 gapn n cpos dt particle cplist =
      Inr (p', c', calls) \<longrightarrow>
      force_onto End1 calls = - force_onto End2 calls \<and>
      (end1 \<noteq> end2 \<longrightarrow>
         contact_force (p' end1) = contact_force (particle end1) + force_onto End1 calls \<and>
         contact_force (p' end2) = contact_force (particle end2) + force_onto End2 calls)) \<and>
   (coupled_particle_force_assemble self nc end1 end2 gapn n cpos dt particle1 particle2 cplist =
      Inr (q1', q2', d', callsc) \<longrightarrow>
      force_onto End1 callsc = - force_onto End2 callsc \<and>
      contact_force (q1' end1) = contact_force (particle1 end1) + force_onto End1 callsc \<and>
      contact_force (q2' end2) = contact_force (particle2 end2) + force_onto End2 callsc) \<and>
   (particle_wall_force_assemble self nc end1 end2 distance gapn n cpos dt particle wall cplist =
      Inr (pw', cw', callsw) \<longrightarrow>
      force_onto End2 callsw = ZEROVEC3f \<and>
      contact_force (pw' end1) = contact_force (particle end1) + force_onto End1 callsw)"
proof (intro conjI impI)
  assume "particle_particle_force_assemble self nc end1 end2 gapn n cpos dt particle cplist =
      Inr (p', c', calls)"
  from particle_particle_Inr [OF this] obtain F M1 M2 where
    p': "p' = (particle(end1 := update_contact_interaction (particle end1) F M1))
          (end2 := update_contact_interaction
            ((particle(end1 := update_contact_interaction (particle end1) F M1)) end2) (- F) M2)"
    and calls: "calls = [(End1, F, M1), (End2, - F, M2)]"
    by blast
  show "force_onto End1 calls = - force_onto End2 calls"
    by (simp add: calls force_onto_pair vec_minus_minus)
  show "contact_force (p' end1) = contact_force (particle end1) + force_onto End1 calls"
    if "end1 \<noteq> end2"
    using that by (simp add: p' calls force_onto_pair update_contact_interaction_def)
  show "contact_force (p' end2) = contact_force (particle end2) + force_onto End2 calls"
    if "end1 \<noteq> end2"
    using that by (simp add: p' calls force_onto_pair update_contact_interaction_def)
next
  assume "coupled_particle_force_assemble self nc end1 end2 gapn n cpos dt particle1 particle2
      cplist = Inr (q1', q2', d', callsc)"
  from coupled_particle_Inr [OF this] obtain F M2 where
    q1': "q1' = particle1(end1 := update_contact_interaction_force (particle1 end1) F)"
    and q2': "q2' = particle2(end2 := update_contact_interaction (particle2 end2) (- F) M2)"
    and calls: "callsc = [(End1, F, ZEROVEC3f), (End2, - F, M2)]"
    by blast
  show "force_onto End1 callsc = - force_onto End2 callsc"
    by (simp add: calls force_onto_pair vec_minus_minus)
  show "contact_force (q1' end1) = contact_force (particle1 end1) + force_onto End1 callsc"
    by (simp add: q1' calls force_onto_pair update_contact_interaction_force_def)
  show "contact_force (q2' end2) = contact_force (particle2 end2) + force_onto End2 callsc"
    by (simp add: q2' calls force_onto_pair update_contact_interaction_def)
next
  assume "particle_wall_force_assemble self nc end1 end2 distance gapn n cpos dt particle wall
      cplist = Inr (pw', cw', callsw)"
  from particle_wall_Inr [OF this] obtain F M1 where
    p': "pw' = particle(end1 := update_contact_interaction (particle end1) F M1)"
    and calls: "callsw = [(End1, F, M1)]"
    by blast
  show "force_onto End2 callsw = ZEROVEC3f"
    by (simp add: calls force_onto_single)
  show "contact_force (pw' end1) = contact_force (particle end1) + force_onto End1 callsw"
    by (simp add: p' calls force_onto_single update_contact_interaction_def)
qed

theorem newton_third_law_particle_endpoints_witness:
  "force_onto End1 [(End1, Vec3f (- 1) 0 8, Vec3f 0 (15 / 16) 0),
                    (End2, Vec3f 1 0 (- 8), Vec3f 0 (15 / 16) 0)] =
     - force_onto End2 [(End1, Vec3f (- 1) 0 8, Vec3f 0 (15 / 16) 0),
                        (End2, Vec3f 1 0 (- 8), Vec3f 0 (15 / 16) 0)] \<and>
   force_onto End1 [(End1, Vec3f (- 1) 0 8, Vec3f 0 0 0), (End2, Vec3f 1 0 (- 8), Vec3f 0 1 0)] =
     - force_onto End2 [(End1, Vec3f (- 1) 0 8, Vec3f 0 0 0),
                        (End2, Vec3f 1 0 (- 8), Vec3f 0 1 0)] \<and>
   force_onto End2 [(End1, Vec3f (- 1) 0 8, Vec3f 0 1 0)] = ZEROVEC3f"
  using newton_third_law_particle_endpoints [where self = example_self and nc = 0 and ?end1.0 = 0
      and ?end2.0 = 1 and gapn = "- 1 / 8" and n = "Vec3f 0 0 1" and cpos = "Vec3f 0 0 0"
      and dt = "1 / 4" and particle = example_particle and cplist = "example_cplist (Vec3f 0 0 0)"
      and ?particle1.0 = example_particle and ?particle2.0 = example_particle]
    ex_pp ex_coupled
    newton_third_law_particle_endpoints [where self = example_self and nc = 0 and ?end1.0 = 0
      and ?end2.0 = 0 and gapn = "- 1 / 8" and n = "Vec3f 0 0 1" and cpos = "Vec3f 0 0 0"
      and dt = "1 / 4" and particle = example_particle and cplist = "example_cplist (Vec3f 0 0 0)"
      and distance = "7 / 8" and wall = "example_wall 1"]
    ex_pw_full
  by (simp add: ZEROVEC3f_eq)

text \<open>
  C4, the particle-wall case as the claim states it: the particle receives \<open>(-1, 0, 8)\<close>,
  the wall receives nothing, and the first is not the negation of the second.
\<close>

theorem newton_third_law_wall_counterexample:
  "particle_wall_force_assemble example_self 0 0 0 (7 / 8) (- 1 / 8) (Vec3f 0 0 1)
     (Vec3f 0 0 0) (1 / 4) example_particle (example_wall 1) (example_cplist (Vec3f 0 0 0)) =
   Inr (example_particle
          (0 := (example_particle 0)\<lparr>contact_force := Vec3f (- 1) 0 8,
                                     contact_torque := Vec3f 0 1 0\<rparr>),
        (example_cplist (Vec3f 0 0 0))
          (0 := \<lparr>DstID = 1, normalForce = Vec3f 0 0 8, tangentialForce = Vec3f (- 1) 0 0,
                 oldTangOverlap = Vec3f (1 / 4) 0 0\<rparr>),
        [(End1, Vec3f (- 1) 0 8, Vec3f 0 1 0)]) \<and>
   force_onto End1 [(End1, Vec3f (- 1) 0 8, Vec3f 0 1 0)] = Vec3f (- 1) 0 8 \<and>
   force_onto End2 [(End1, Vec3f (- 1) 0 8, Vec3f 0 1 0)] = Vec3f 0 0 0 \<and>
   force_onto End1 [(End1, Vec3f (- 1) 0 8, Vec3f 0 1 0)] \<noteq>
     - force_onto End2 [(End1, Vec3f (- 1) 0 8, Vec3f 0 1 0)]"
  using ex_pw_full by (simp add: force_onto_single ZEROVEC3f_eq uminus_vec3f_def)

text \<open>
  C5. Slip-case overlap. With a nonnegative friction coefficient, in the slip branch the
  stored overlap is minus the clipped force divided by \<open>ks\<close>; the elastic law
  \<open>- ks * overlap\<close> gives the clipped force back; the norm of the stored overlap is
  \<open>mu * \<bar>fn\<bar> / \<bar>ks\<bar>\<close>, which is \<open>mu * \<bar>fn\<bar> / ks\<close> for a positive stiffness. The
  particle-particle assembler stores this overlap in the contact record.
\<close>

theorem slip_overlap_round_trip:
  "(0 \<le> mu self \<and> fric self fn < norm3 (trial_ft self vs dt old n) \<longrightarrow>
      (\<exists>tf ov. friction_cap self m_eff fn vs dt old n = Inr (tf, ov) \<and>
         vdiv (- tf) (ks self) = Inr ov \<and>
         smul (- ks self) ov = tf \<and>
         norm3 ov = mu self * \<bar>fn\<bar> / \<bar>ks self\<bar> \<and>
         (0 < ks self \<longrightarrow> norm3 ov = mu self * \<bar>fn\<bar> / ks self))) \<and>
   (particle_particle_force_assemble self nc end1 end2 gapn n cpos dt particle cplist =
      Inr (p', c', calls) \<longrightarrow>
      (\<exists>m_eff fn vs.
         friction_cap self m_eff fn vs dt (oldTangOverlap (cplist nc)) n =
           Inr (tangentialForce (c' nc), oldTangOverlap (c' nc))))"
proof (intro conjI impI)
  assume a: "0 \<le> mu self \<and> fric self fn < norm3 (trial_ft self vs dt old n)"
  then have mu: "0 \<le> mu self" and slip: "fric self fn < norm3 (trial_ft self vs dt old n)"
    by simp_all
  define T where "T = trial_ft self vs dt old n"
  define F where "F = fric self fn"
  have f: "0 \<le> F" unfolding F_def using mu by (rule fric_nonneg)
  have pos: "0 < norm3 T" using f slip by (simp add: T_def F_def)
  have k: "ks self \<noteq> 0"
    using pos trial_ft_ks_zero [of self vs dt old n] by (auto simp add: T_def)
  have fc: "friction_cap self m_eff fn vs dt old n =
      Inr (smul (F / norm3 T) T, smul (- (F / (ks self * norm3 T))) T)"
    unfolding T_def F_def using mu slip by (rule friction_cap_slip)
  have 1: "vdiv (- smul (F / norm3 T) T) (ks self) = Inr (smul (- (F / (ks self * norm3 T))) T)"
    using k pos by (simp add: vdiv_def vec3f_eq_iff)
  have 2: "smul (- ks self) (smul (- (F / (ks self * norm3 T))) T) = smul (F / norm3 T) T"
    using k pos by (simp add: smul_smul)
  have 3: "norm3 (smul (- (F / (ks self * norm3 T))) T) = F / \<bar>ks self\<bar>"
    using k pos f by (simp add: norm3_smul abs_mult)
  have 4: "0 < ks self \<longrightarrow> norm3 (smul (- (F / (ks self * norm3 T))) T) = F / ks self"
    using 3 by simp
  from fc 1 2 3 4 show "\<exists>tf ov. friction_cap self m_eff fn vs dt old n = Inr (tf, ov) \<and>
         vdiv (- tf) (ks self) = Inr ov \<and>
         smul (- ks self) ov = tf \<and>
         norm3 ov = mu self * \<bar>fn\<bar> / \<bar>ks self\<bar> \<and>
         (0 < ks self \<longrightarrow> norm3 ov = mu self * \<bar>fn\<bar> / ks self)"
    unfolding F_def fric_def by blast
next
  assume "particle_particle_force_assemble self nc end1 end2 gapn n cpos dt particle cplist =
      Inr (p', c', calls)"
  from particle_particle_link [OF this]
  show "\<exists>m_eff fn vs.
         friction_cap self m_eff fn vs dt (oldTangOverlap (cplist nc)) n =
           Inr (tangentialForce (c' nc), oldTangOverlap (c' nc))"
    by blast
qed

theorem slip_overlap_round_trip_witness:
  "0 \<le> mu example_self \<and>
   fric example_self 8 <
     norm3 (trial_ft example_self (Vec3f 1 0 0) (1 / 4) (Vec3f 3 0 0) (Vec3f 0 0 1)) \<and>
   friction_cap example_self 1 8 (Vec3f 1 0 0) (1 / 4) (Vec3f 3 0 0) (Vec3f 0 0 1) =
     Inr (Vec3f (- 4) 0 0, Vec3f 1 0 0) \<and>
   smul (- ks example_self) (Vec3f 1 0 0) = Vec3f (- 4) 0 0 \<and>
   norm3 (Vec3f 1 0 0) = mu example_self * \<bar>8\<bar> / ks example_self"
proof -
  have h: "0 \<le> mu example_self \<and>
      fric example_self 8 <
        norm3 (trial_ft example_self (Vec3f 1 0 0) (1 / 4) (Vec3f 3 0 0) (Vec3f 0 0 1))"
    by (simp add: example_self_def law_simps vec_simps)
  have k: "0 < ks example_self" by (simp add: example_self_def)
  from slip_overlap_round_trip [THEN conjunct1, rule_format, OF h, of 1] ex_slip k h
  show ?thesis by auto
qed

text \<open>
  C6. Rebuilding from a checkpoint. \<open>rebuild_ppcontact_list\<close> and
  \<open>rebuild_pwcontact_list\<close> raise a RuntimeError if and only if the number of restored
  pairs (the length of \<open>DstID\<close>) exceeds the capacity of \<open>cplist\<close>, and then the history
  store and the history count table are as they were.
\<close>

theorem rebuild_capacity_enforcement:
  assumes "rebuild_contact_list contact_info =
             (object_object, particle_number, DstID', oldTangOverlap')"
  shows "((\<exists>msg. fst (rebuild_ppcontact_list rebuild_contact_list cplist_shape hist_cplist
              hist_particle_particle contact_info) = Some (RuntimeError msg)) \<longleftrightarrow>
            cplist_shape < length DstID') \<and>
         (cplist_shape < length DstID' \<longrightarrow>
            snd (rebuild_ppcontact_list rebuild_contact_list cplist_shape hist_cplist
              hist_particle_particle contact_info) = (hist_cplist, hist_particle_particle)) \<and>
         ((\<exists>msg. fst (rebuild_pwcontact_list rebuild_contact_list cplist_shape hist_cplist
              hist_particle_wall contact_info) = Some (RuntimeError msg)) \<longleftrightarrow>
            cplist_shape < length DstID') \<and>
         (cplist_shape < length DstID' \<longrightarrow>
            snd (rebuild_pwcontact_list rebuild_contact_list cplist_shape hist_cplist
              hist_particle_wall contact_info) = (hist_cplist, hist_particle_wall))"
  using assms kernel_not_RuntimeError
  by (simp add: rebuild_ppcontact_list_def rebuild_pwcontact_list_def)

theorem rebuild_capacity_enforcement_witness:
  "example_rebuild_contact_list ([0, 2], [2], [1, 0], [(0, 0, 0), (1, 0, 0)]) =
     ([0, 2], [2], [1, 0], [(0, 0, 0), (1, 0, 0)]) \<and>
   (1::nat) < length [1, 0 :: int] \<and>
   rebuild_ppcontact_list example_rebuild_contact_list 1 example_hist_cplist example_hist_count
     ([0, 2], [2], [1, 0], [(0, 0, 0), (1, 0, 0)]) =
   (Some (RuntimeError ''/body_coordination_number/ should be enlarged''),
    example_hist_cplist, example_hist_count) \<and>
   fst (rebuild_ppcontact_list example_rebuild_contact_list 2 example_hist_cplist
     example_hist_count ([0, 2], [2], [1, 0], [(0, 0, 0), (1, 0, 0)])) = None"
proof -
  have r: "example_rebuild_contact_list ([0, 2], [2], [1, 0], [(0, 0, 0), (1, 0, 0)]) =
     ([0, 2], [2], [1, 0], [(0, 0, 0), (1, 0, 0)])"
    by (simp add: example_rebuild_contact_list_def)
  from rebuild_capacity_enforcement [where rebuild_contact_list = example_rebuild_contact_list
      and cplist_shape = 1 and hist_cplist = example_hist_cplist
      and hist_particle_particle = example_hist_count, OF r]
  have "snd (rebuild_ppcontact_list example_rebuild_contact_list 1 example_hist_cplist
      example_hist_count ([0, 2], [2], [1, 0], [(0, 0, 0), (1, 0, 0)])) =
      (example_hist_cplist, example_hist_count)"
    by simp
  with r ex_rebuild_raise ex_rebuild_ok show ?thesis by simp
qed

text \<open>
  C7. Property inheritance. For two property sets that have the five entries,
  \<open>inherit_surface_property\<close> returns, and the slot of \<open>(materialID1, materialID2)\<close> (and
  that of the swapped pair) holds the record whose stiffnesses are \<open>2 k1 k2 / (k1 + k2)\<close>,
  where that quotient has a nonzero divisor, and whose friction and damping ratios are
  the minima of the inputs. Stiffnesses 100 and 300 combine to 150.
\<close>

theorem inherit_surface_property_combination:
  assumes "GetEssential property1 ''NormalStiffness'' = Inr kn1"
    and "GetEssential property1 ''TangentialStiffness'' = Inr ks1"
    and "GetEssential property1 ''Friction'' = Inr mu1"
    and "GetEssential property1 ''NormalViscousDamping'' = Inr dnratio1"
    and "GetEssential property1 ''TangentialViscousDamping'' = Inr dsratio1"
    and "GetEssential property2 ''NormalStiffness'' = Inr kn2"
    and "GetEssential property2 ''TangentialStiffness'' = Inr ks2"
    and "GetEssential property2 ''Friction'' = Inr mu2"
    and "GetEssential property2 ''NormalViscousDamping'' = Inr dnratio2"
    and "GetEssential property2 ''TangentialViscousDamping'' = Inr dsratio2"
  shows "\<exists>t'. inherit_surface_property cid GetEssential t n m1 m2 property1 property2 =
            Inr (t', cid n m2 m1) \<and>
          (kn1 + kn2 \<noteq> 0 \<longrightarrow> kn (t' (cid n m1 m2)) = 2 * kn1 * kn2 / (kn1 + kn2)) \<and>
          (ks1 + ks2 \<noteq> 0 \<longrightarrow> ks (t' (cid n m1 m2)) = 2 * ks1 * ks2 / (ks1 + ks2)) \<and>
          mu (t' (cid n m1 m2)) = min mu1 mu2 \<and>
          ndratio (t' (cid n m1 m2)) = min dnratio1 dnratio2 \<and>
          sdratio (t' (cid n m1 m2)) = min dsratio1 dsratio2 \<and>
          t' (cid n m2 m1) = t' (cid n m1 m2)"
proof -
  have "inherit_surface_property cid GetEssential t n m1 m2 property1 property2 =
     Inr (t(cid n m1 m2 := \<lparr>kn = EffectiveValue kn1 kn2, ks = EffectiveValue ks1 ks2, mu = min mu1 mu2,
                              ndratio = min dnratio1 dnratio2, sdratio = min dsratio1 dsratio2\<rparr>,
            cid n m2 m1 := \<lparr>kn = EffectiveValue kn1 kn2, ks = EffectiveValue ks1 ks2, mu = min mu1 mu2,
                              ndratio = min dnratio1 dnratio2, sdratio = min dsratio1 dsratio2\<rparr>), cid n m2 m1)"
    using assms by (rule inherit_surface_property_result)
  then show ?thesis by (simp add: EffectiveValue_def)
qed

theorem inherit_surface_property_combination_witness:
  "\<exists>t'. inherit_surface_property example_componousID example_GetEssential example_table 2 0 1
           (example_property 100 100 0.5 0.3 0.2) (example_property 300 300 0.4 0.1 0.6) =
            Inr (t', 2) \<and>
         kn (t' 1) = 150 \<and> ks (t' 1) = 150 \<and> mu (t' 1) = 0.4 \<and>
         ndratio (t' 1) = 0.1 \<and> sdratio (t' 1) = 0.2 \<and>
         t' 2 = t' 1"
  using inherit_surface_property_combination [where GetEssential = example_GetEssential
      and ?property1.0 = "example_property 100 100 0.5 0.3 0.2"
      and ?property2.0 = "example_property 300 300 0.4 0.1 0.6"
      and ?kn1.0 = 100 and ?ks1.0 = 100 and ?mu1.0 = "0.5" and ?dnratio1.0 = "0.3" and ?dsratio1.0 = "0.2"
      and ?kn2.0 = 300 and ?ks2.0 = 300 and ?mu2.0 = "0.4" and ?dnratio2.0 = "0.1" and ?dsratio2.0 = "0.6"
      and cid = example_componousID and t = example_table and n = 2 and ?m1.0 = 0 and ?m2.0 = 1]
  by (simp add: example_GetEssential_def example_property_def example_componousID_def)

text \<open>
  C8. Symmetry of the property index. After a call of \<open>add_surface_property\<close> or
  \<open>inherit_surface_property\<close> with two different materials that returns, the slots of
  the two orderings hold records with equal \<open>kn\<close>, \<open>ks\<close>, \<open>mu\<close>, \<open>ndratio\<close> and
  \<open>sdratio\<close>, each written by its own assignment, and no other slot has changed.
\<close>

theorem property_index_symmetry:
  assumes "materialID1 \<noteq> materialID2"
  shows "(add_surface_property cid GetEssential t n materialID1 materialID2 property = Inr (t', c) \<longrightarrow>
            kn (t' (cid n materialID1 materialID2)) = kn (t' (cid n materialID2 materialID1)) \<and>
            ks (t' (cid n materialID1 materialID2)) = ks (t' (cid n materialID2 materialID1)) \<and>
            mu (t' (cid n materialID1 materialID2)) = mu (t' (cid n materialID2 materialID1)) \<and>
            ndratio (t' (cid n materialID1 materialID2)) = ndratio (t' (cid n materialID2 materialID1)) \<and>
            sdratio (t' (cid n materialID1 materialID2)) = sdratio (t' (cid n materialID2 materialID1)) \<and>
            (\<forall>j. j \<noteq> cid n materialID1 materialID2 \<and> j \<noteq> cid n materialID2 materialID1 \<longrightarrow> t' j = t j)) \<and>
         (inherit_surface_property cid GetEssential t n materialID1 materialID2 property1 property2 = Inr (t'', c') \<longrightarrow>
            kn (t'' (cid n materialID1 materialID2)) = kn (t'' (cid n materialID2 materialID1)) \<and>
            ks (t'' (cid n materialID1 materialID2)) = ks (t'' (cid n materialID2 materialID1)) \<and>
            mu (t'' (cid n materialID1 materialID2)) = mu (t'' (cid n materialID2 materialID1)) \<and>
            ndratio (t'' (cid n materialID1 materialID2)) = ndratio (t'' (cid n materialID2 materialID1)) \<and>
            sdratio (t'' (cid n materialID1 materialID2)) = sdratio (t'' (cid n materialID2 materialID1)) \<and>
            (\<forall>j. j \<noteq> cid n materialID1 materialID2 \<and> j \<noteq> cid n materialID2 materialID1 \<longrightarrow> t'' j = t j))"
proof (intro conjI impI)
  assume "add_surface_property cid GetEssential t n materialID1 materialID2 property = Inr (t', c)"
  then obtain a b c' d e where
    t': "t' = t(cid n materialID1 materialID2 := \<lparr>kn = a, ks = b, mu = c', ndratio = d, sdratio = e\<rparr>,
            cid n materialID2 materialID1 := \<lparr>kn = a, ks = b, mu = c', ndratio = d, sdratio = e\<rparr>)"
    by (rule add_surface_property_Inr)
  show "kn (t' (cid n materialID1 materialID2)) = kn (t' (cid n materialID2 materialID1))"
    "ks (t' (cid n materialID1 materialID2)) = ks (t' (cid n materialID2 materialID1))"
    "mu (t' (cid n materialID1 materialID2)) = mu (t' (cid n materialID2 materialID1))"
    "ndratio (t' (cid n materialID1 materialID2)) = ndratio (t' (cid n materialID2 materialID1))"
    "sdratio (t' (cid n materialID1 materialID2)) = sdratio (t' (cid n materialID2 materialID1))"
    "\<forall>j. j \<noteq> cid n materialID1 materialID2 \<and> j \<noteq> cid n materialID2 materialID1 \<longrightarrow> t' j = t j"
    by (simp_all add: t')
next
  assume "inherit_surface_property cid GetEssential t n materialID1 materialID2 property1 property2 = Inr (t'', c')"
  then obtain r where
    t'': "t'' = t(cid n materialID1 materialID2 := r, cid n materialID2 materialID1 := r)"
    by (rule inherit_surface_property_Inr)
  show "kn (t'' (cid n materialID1 materialID2)) = kn (t'' (cid n materialID2 materialID1))"
    "ks (t'' (cid n materialID1 materialID2)) = ks (t'' (cid n materialID2 materialID1))"
    "mu (t'' (cid n materialID1 materialID2)) = mu (t'' (cid n materialID2 materialID1))"
    "ndratio (t'' (cid n materialID1 materialID2)) = ndratio (t'' (cid n materialID2 materialID1))"
    "sdratio (t'' (cid n materialID1 materialID2)) = sdratio (t'' (cid n materialID2 materialID1))"
    "\<forall>j. j \<noteq> cid n materialID1 materialID2 \<and> j \<noteq> cid n materialID2 materialID1 \<longrightarrow> t'' j = t j"
    by (simp_all add: t'')
qed

theorem property_index_symmetry_witness:
  "(0::int) \<noteq> 1 \<and>
   (\<exists>t'. add_surface_property example_componousID example_GetEssential example_table 2 0 1
            (example_property 100 50 0.5 0.3 0.2) = Inr (t', 2) \<and>
          t' 1 = \<lparr>kn = 100, ks = 50, mu = 0.5, ndratio = 0.3, sdratio = 0.2\<rparr> \<and>
          t' 2 = t' 1 \<and> t' 0 = example_table 0 \<and> t' 3 = example_table 3) \<and>
   (\<exists>t'. inherit_surface_property example_componousID example_GetEssential example_table 2 0 1
            (example_property 100 100 0.5 0.3 0.2) (example_property 300 300 0.4 0.1 0.6) =
            Inr (t', 2) \<and>
          t' 2 = t' 1 \<and> t' 0 = example_table 0 \<and> t' 3 = example_table 3)"
proof -
  have ne: "(0::int) \<noteq> 1" by simp
  have a: "add_surface_property example_componousID example_GetEssential example_table 2 0 1
            (example_property 100 50 0.5 0.3 0.2) =
      Inr (example_table
             (1 := \<lparr>kn = 100, ks = 50, mu = 0.5, ndratio = 0.3, sdratio = 0.2\<rparr>,
              2 := \<lparr>kn = 100, ks = 50, mu = 0.5, ndratio = 0.3, sdratio = 0.2\<rparr>), 2)"
    by (simp add: add_surface_property_def example_GetEssential_def example_property_def
        example_componousID_def Let_def LinearSurfaceProperty_add_surface_property_eq)
  have b: "inherit_surface_property example_componousID example_GetEssential example_table 2 0 1
            (example_property 100 100 0.5 0.3 0.2) (example_property 300 300 0.4 0.1 0.6) =
      Inr (example_table
             (1 := \<lparr>kn = 150, ks = 150, mu = 0.4, ndratio = 0.1, sdratio = 0.2\<rparr>,
              2 := \<lparr>kn = 150, ks = 150, mu = 0.4, ndratio = 0.1, sdratio = 0.2\<rparr>), 2)"
    by (simp add: inherit_surface_property_def example_GetEssential_def example_property_def
        example_componousID_def Let_def LinearSurfaceProperty_add_surface_property_eq
        EffectiveValue_def)
  note t = property_index_symmetry [OF ne, where cid = example_componousID
      and GetEssential = example_GetEssential and t = example_table and n = 2]
  from t [THEN conjunct1, rule_format, OF a] t [THEN conjunct2, rule_format, OF b] a b ne
  show ?thesis by (simp add: example_componousID_def)
qed

text \<open>
  C9. Degeneracies. With a nonnegative friction coefficient the friction limit is
  nonnegative; in the slip branch the trial force has a positive norm, its normalisation
  divides by that norm, and \<open>ks\<close> is not zero; a zero-norm old overlap, or a zero-norm
  projection of it, gives the zero carried term; and the tangential law and the three
  assemblers return a result, never \<open>ZeroDivision\<close>.
\<close>

theorem force_law_degeneracy_safety:
  assumes "0 \<le> mu self"
  shows "0 \<le> fric self fn \<and>
    (fric self fn < norm3 (trial_ft self vs dt old n) \<longrightarrow>
       0 < norm3 (trial_ft self vs dt old n) \<and>
       normalized (trial_ft self vs dt old n) =
         Inr (smul (1 / norm3 (trial_ft self vs dt old n)) (trial_ft self vs dt old n)) \<and>
       ks self \<noteq> 0) \<and>
    (norm3 old = 0 \<longrightarrow>
       smul (norm3 old) (Normalize (tangOverlapRot old n)) = ZEROVEC3f) \<and>
    (norm3 (tangOverlapRot old n) = 0 \<longrightarrow>
       smul (norm3 old) (Normalize (tangOverlapRot old n)) = ZEROVEC3f) \<and>
    (\<exists>r. friction_cap self m_eff fn vs dt old n = Inr r) \<and>
    (\<exists>r. particle_particle_force_assemble self nc end1 end2 gapn n cpos dt particle cplist =
       Inr r) \<and>
    (\<exists>r. coupled_particle_force_assemble self nc end1 end2 gapn n cpos dt particle1 particle2
       cplist = Inr r) \<and>
    (\<exists>r. particle_wall_force_assemble self nc end1 end2 distance gapn n cpos dt particle wall
       cplist = Inr r)"
proof -
  have f: "0 \<le> fric self fn" using assms by (rule fric_nonneg)
  have s: "0 < norm3 (trial_ft self vs dt old n) \<and>
       normalized (trial_ft self vs dt old n) =
         Inr (smul (1 / norm3 (trial_ft self vs dt old n)) (trial_ft self vs dt old n)) \<and>
       ks self \<noteq> 0"
    if slip: "fric self fn < norm3 (trial_ft self vs dt old n)"
  proof -
    have pos: "0 < norm3 (trial_ft self vs dt old n)" using f slip by linarith
    moreover have "ks self \<noteq> 0"
      using pos trial_ft_ks_zero [of self vs dt old n] by auto
    ultimately show ?thesis by (simp add: normalized_Inr)
  qed
  have z1: "smul (norm3 old) (Normalize (tangOverlapRot old n)) = ZEROVEC3f" if "norm3 old = 0"
    using that by (simp add: smul_zero_left ZEROVEC3f_def)
  have z2: "smul (norm3 old) (Normalize (tangOverlapRot old n)) = ZEROVEC3f"
    if "norm3 (tangOverlapRot old n) = 0"
    using that by (simp add: Normalize_zero smul_ZEROVEC3f)
  show ?thesis
    by (intro conjI impI f z1 z2 friction_cap_total [OF assms] particle_particle_total [OF assms]
        coupled_particle_total [OF assms] particle_wall_total [OF assms])
      (simp_all add: s)
qed

theorem force_law_degeneracy_safety_witness:
  "0 \<le> mu example_self \<and>
   fric example_self 8 <
     norm3 (trial_ft example_self (Vec3f 1 0 0) (1 / 4) (Vec3f 3 0 0) (Vec3f 0 0 1)) \<and>
   0 < norm3 (trial_ft example_self (Vec3f 1 0 0) (1 / 4) (Vec3f 3 0 0) (Vec3f 0 0 1)) \<and>
   norm3 (Vec3f 0 0 0) = 0 \<and>
   smul (norm3 (Vec3f 0 0 0)) (Normalize (tangOverlapRot (Vec3f 0 0 0) (Vec3f 0 0 1))) = ZEROVEC3f \<and>
   norm3 (tangOverlapRot (Vec3f 0 0 2) (Vec3f 0 0 1)) = 0 \<and>
   smul (norm3 (Vec3f 0 0 2)) (Normalize (tangOverlapRot (Vec3f 0 0 2) (Vec3f 0 0 1))) = ZEROVEC3f \<and>
   (\<exists>r. particle_particle_force_assemble example_self 0 0 1 (- 1 / 8) (Vec3f 0 0 1) (Vec3f 0 0 0)
      (1 / 4) example_particle (example_cplist (Vec3f 0 0 2)) = Inr r)"
proof -
  have m: "0 \<le> mu example_self" by (simp add: example_self_def)
  have slip: "fric example_self 8 <
     norm3 (trial_ft example_self (Vec3f 1 0 0) (1 / 4) (Vec3f 3 0 0) (Vec3f 0 0 1))"
    by (simp add: example_self_def law_simps vec_simps)
  have z1: "norm3 (Vec3f 0 0 0) = 0" by (simp add: vec_simps)
  have z2: "norm3 (tangOverlapRot (Vec3f 0 0 2) (Vec3f 0 0 1)) = 0"
    by (simp add: law_simps vec_simps)
  note t = force_law_degeneracy_safety [OF m]
  from t [of 8 "Vec3f 1 0 0" "1 / 4" "Vec3f 3 0 0" "Vec3f 0 0 1"] slip
  have a: "0 < norm3 (trial_ft example_self (Vec3f 1 0 0) (1 / 4) (Vec3f 3 0 0) (Vec3f 0 0 1))"
    by blast
  from t [where old = "Vec3f 0 0 0" and n = "Vec3f 0 0 1"] z1
  have b: "smul (norm3 (Vec3f 0 0 0)) (Normalize (tangOverlapRot (Vec3f 0 0 0) (Vec3f 0 0 1))) =
      ZEROVEC3f"
    by blast
  from t [where old = "Vec3f 0 0 2" and n = "Vec3f 0 0 1"] z2
  have c: "smul (norm3 (Vec3f 0 0 2)) (Normalize (tangOverlapRot (Vec3f 0 0 2) (Vec3f 0 0 1))) =
      ZEROVEC3f"
    by blast
  from t [where nc = 0 and ?end1.0 = 0 and ?end2.0 = 1 and gapn = "- 1 / 8" and n = "Vec3f 0 0 1"
      and cpos = "Vec3f 0 0 0" and dt = "1 / 4" and particle = example_particle
      and cplist = "example_cplist (Vec3f 0 0 2)"]
  have d: "\<exists>r. particle_particle_force_assemble example_self 0 0 1 (- 1 / 8) (Vec3f 0 0 1)
      (Vec3f 0 0 0) (1 / 4) example_particle (example_cplist (Vec3f 0 0 2)) = Inr r"
    by blast
  from m slip a z1 b z2 c d show ?thesis by blast
qed

text \<open>
  C10. Targeted property update. For each of the five recognised names
  \<open>update_property\<close> changes the named field of the addressed record alone, to the old
  value plus \<open>val\<close> when \<open>override\<close> is true and to \<open>val\<close> when it is false; every other
  field and every other record is unchanged; for any other name the table is unchanged.
\<close>

theorem update_property_frame:
  "update_property t c ''NormalStiffness'' v ov = t(c := (t c)\<lparr>kn := (if ov then kn (t c) + v else v)\<rparr>) \<and>
   update_property t c ''TangentialStiffness'' v ov = t(c := (t c)\<lparr>ks := (if ov then ks (t c) + v else v)\<rparr>) \<and>
   update_property t c ''Friction'' v ov = t(c := (t c)\<lparr>mu := (if ov then mu (t c) + v else v)\<rparr>) \<and>
   update_property t c ''NormalViscousDamping'' v ov = t(c := (t c)\<lparr>ndratio := (if ov then ndratio (t c) + v else v)\<rparr>) \<and>
   update_property t c ''TangentialViscousDamping'' v ov = t(c := (t c)\<lparr>sdratio := (if ov then sdratio (t c) + v else v)\<rparr>) \<and>
   (name \<notin> {''NormalStiffness'', ''TangentialStiffness'', ''Friction'', ''NormalViscousDamping'', ''TangentialViscousDamping''}
      \<longrightarrow> update_property t c name v ov = t)"
  by (simp add: update_property_def)

theorem update_property_frame_witness:
  "update_property example_table 3 ''Density'' 5 True = example_table \<and>
   update_property example_table 3 ''Friction'' (1 / 4) True =
     example_table(3 := (example_table 3)\<lparr>mu := 3 / 4\<rparr>) \<and>
   update_property example_table 3 ''Friction'' (1 / 4) False =
     example_table(3 := (example_table 3)\<lparr>mu := 1 / 4\<rparr>)"
  using update_property_frame [of example_table 3 "1 / 4" True "''Density''"]
    update_property_frame [of example_table 3 5 True "''Density''"]
    update_property_frame [of example_table 3 "1 / 4" False "''Density''"]
  by (simp add: example_table_def)

end
